theory Spec2Isabelle
  imports Complex_Main
begin

section \<open>Gaussian process regression (nispat/gp.py)\<close>

text \<open>
  A shallow embedding of \<^verbatim>\<open>src/nispat/gp.py\<close>: the covariance functions
  \<^verbatim>\<open>CovLin\<close>, \<^verbatim>\<open>CovSqExp\<close>, \<^verbatim>\<open>CovSqExpARD\<close> and the regression engine
  \<^verbatim>\<open>GPR\<close>.

  Floating-point arithmetic, the LAPACK routines behind \<^verbatim>\<open>numpy.linalg\<close>, the
  distance helper \<^verbatim>\<open>utils.squared_dist\<close> and the SciPy optimizers are not part of
  the file. They are taken as parameters (the records \<open>numpy\<close> and \<open>scipy\<close> below), and
  every theorem holds for every choice of them. What the file itself does (control flow,
  the attributes it reads and writes, the exceptions it raises and catches, the shape
  of the arrays it builds) is modelled as written.
\<close>

subsection \<open>Exceptions\<close>

datatype error = ValueError | LinAlgError | IndexError | TypeError | AttributeError

text \<open>
  A computation that may raise returns \<open>Inl\<close> of the exception. \<open>bindE\<close> is sequencing:
  the first exception raised ends the computation.
\<close>

definition bindE :: "error + 'a \<Rightarrow> ('a \<Rightarrow> error + 'b) \<Rightarrow> error + 'b" where
  "bindE m f = (case m of Inl e \<Rightarrow> Inl e | Inr v \<Rightarrow> f v)"

subsection \<open>Arrays\<close>

text \<open>
  A one-dimensional array is a list, a two-dimensional array the list of its rows. The
  empty list of rows is the array of shape (0, 0). \<open>ndarray\<close> is used where the source
  lets the rank vary (the result of \<^verbatim>\<open>dcov\<close>, the arguments of \<^verbatim>\<open>squared_dist\<close>).
\<close>

type_synonym 'f vec = "'f list"
type_synonym 'f mat = "'f list list"

datatype 'f ndarray = A0 'f | A1 "'f vec" | A2 "'f mat"

subsection \<open>The numerical provider\<close>

text \<open>
  \<open>'f\<close> is the type of float64 values. \<open>fofint\<close> converts a Python int, \<open>feq\<close> is
  IEEE equality (\<^verbatim>\<open>==\<close>), \<open>fsum\<close> is NumPy's reduction \<^verbatim>\<open>np.sum\<close> of the elements
  given in row-major order, \<open>fdot\<close> the inner product computed by \<^verbatim>\<open>dot\<close>.
  \<open>chol\<close> is \<^verbatim>\<open>numpy.linalg.cholesky\<close>, \<open>solve_v\<close> and \<open>solve_m\<close> are
  \<^verbatim>\<open>numpy.linalg.solve\<close> with a one- and a two-dimensional right-hand side,
  \<open>squared_dist\<close> is \<^verbatim>\<open>utils.squared_dist\<close>.
\<close>

record 'f numpy =
  fadd :: "'f \<Rightarrow> 'f \<Rightarrow> 'f"
  fsub :: "'f \<Rightarrow> 'f \<Rightarrow> 'f"
  fmul :: "'f \<Rightarrow> 'f \<Rightarrow> 'f"
  fdiv :: "'f \<Rightarrow> 'f \<Rightarrow> 'f"
  fneg :: "'f \<Rightarrow> 'f"
  fexp :: "'f \<Rightarrow> 'f"
  flog :: "'f \<Rightarrow> 'f"
  fsign :: "'f \<Rightarrow> 'f"
  feq :: "'f \<Rightarrow> 'f \<Rightarrow> bool"
  isfinite :: "'f \<Rightarrow> bool"
  fofint :: "int \<Rightarrow> 'f"
  fhalf :: "'f"
  fpi :: "'f"
  feps :: "'f"
  fnan :: "'f"
  fsum :: "'f list \<Rightarrow> 'f"
  fdot :: "'f list \<Rightarrow> 'f list \<Rightarrow> 'f"
  chol :: "'f mat \<Rightarrow> error + 'f mat"
  solve_v :: "'f mat \<Rightarrow> 'f vec \<Rightarrow> error + 'f vec"
  solve_m :: "'f mat \<Rightarrow> 'f mat \<Rightarrow> error + 'f mat"
  squared_dist :: "'f ndarray \<Rightarrow> 'f ndarray \<Rightarrow> error + 'f mat"

subsection \<open>Array operations built by the file\<close>

definition ncols :: "'f mat \<Rightarrow> nat" where
  "ncols X = (case X of [] \<Rightarrow> 0 | r # _ \<Rightarrow> length r)"

text \<open>\<^verbatim>\<open>X.T\<close> of a two-dimensional array.\<close>

definition mT :: "'f mat \<Rightarrow> 'f mat" where
  "mT X = map (\<lambda>j. map (\<lambda>r. r ! j) X) [0..<ncols X]"

text \<open>\<^verbatim>\<open>A.dot(B)\<close>: a shape mismatch raises ValueError.\<close>

definition dot :: "'f numpy \<Rightarrow> 'f mat \<Rightarrow> 'f mat \<Rightarrow> error + 'f mat" where
  "dot P A B =
     (if ncols A \<noteq> length B then Inl ValueError
      else Inr (map (\<lambda>r. map (\<lambda>c. fdot P r c) (mT B)) A))"

definition dot_mv :: "'f numpy \<Rightarrow> 'f mat \<Rightarrow> 'f vec \<Rightarrow> error + 'f vec" where
  "dot_mv P A v =
     (if ncols A \<noteq> length v then Inl ValueError
      else Inr (map (\<lambda>r. fdot P r v) A))"

definition dot_vv :: "'f numpy \<Rightarrow> 'f vec \<Rightarrow> 'f vec \<Rightarrow> error + 'f" where
  "dot_vv P u v =
     (if length u \<noteq> length v then Inl ValueError else Inr (fdot P u v))"

text \<open>
  Element-wise operations broadcast as NumPy does: two extents are compatible when
  they are equal or one of them is 1.
\<close>

definition bshape :: "nat \<Rightarrow> nat \<Rightarrow> nat option" where
  "bshape a b =
     (if a = b then Some a else if a = 1 then Some b else if b = 1 then Some a
      else None)"

definition belem :: "'f mat \<Rightarrow> nat \<Rightarrow> nat \<Rightarrow> 'f" where
  "belem A i j = A ! (if length A = 1 then 0 else i) ! (if ncols A = 1 then 0 else j)"

definition mbin :: "('f \<Rightarrow> 'f \<Rightarrow> 'f) \<Rightarrow> 'f mat \<Rightarrow> 'f mat \<Rightarrow> error + 'f mat" where
  "mbin f A B =
     (case (bshape (length A) (length B), bshape (ncols A) (ncols B)) of
        (Some r, Some c) \<Rightarrow>
          Inr (map (\<lambda>i. map (\<lambda>j. f (belem A i j) (belem B i j)) [0..<c]) [0..<r])
      | _ \<Rightarrow> Inl ValueError)"

text \<open>An operation between every element and a scalar.\<close>

definition mmap :: "('f \<Rightarrow> 'f) \<Rightarrow> 'f mat \<Rightarrow> 'f mat" where
  "mmap f A = map (map f) A"

text \<open>\<^verbatim>\<open>np.eye(n)\<close>, \<^verbatim>\<open>np.diag\<close> of a vector and of a matrix, \<^verbatim>\<open>np.outer\<close>,
  \<^verbatim>\<open>np.trace\<close>.\<close>

definition eye :: "'f numpy \<Rightarrow> nat \<Rightarrow> 'f mat" where
  "eye P n = map (\<lambda>i. map (\<lambda>j. if i = j then fofint P 1 else fofint P 0) [0..<n]) [0..<n]"

definition diag_of_vec :: "'f numpy \<Rightarrow> 'f vec \<Rightarrow> 'f mat" where
  "diag_of_vec P v =
     map (\<lambda>i. map (\<lambda>j. if i = j then v ! i else fofint P 0) [0..<length v]) [0..<length v]"

definition diag :: "'f mat \<Rightarrow> 'f vec" where
  "diag A = map (\<lambda>i. A ! i ! i) [0..<min (length A) (ncols A)]"

definition outer :: "'f numpy \<Rightarrow> 'f vec \<Rightarrow> 'f vec \<Rightarrow> 'f mat" where
  "outer P u v = map (\<lambda>a. map (\<lambda>b. fmul P a b) v) u"

definition trace :: "'f numpy \<Rightarrow> 'f mat \<Rightarrow> 'f" where
  "trace P A = fsum P (diag A)"

text \<open>Python's \<^verbatim>\<open>xs[i]\<close> on a sequence: a negative index counts from the end.\<close>

definition py_index :: "'a list \<Rightarrow> int \<Rightarrow> error + 'a" where
  "py_index xs i =
     (if 0 \<le> i \<and> i < int (length xs) then Inr (xs ! nat i)
      else if i < 0 \<and> - int (length xs) \<le> i then Inr (xs ! nat (int (length xs) + i))
      else Inl IndexError)"

text \<open>\<^verbatim>\<open>x[:, i]\<close>: column \<open>i\<close> of a two-dimensional array.\<close>

definition column :: "'f mat \<Rightarrow> int \<Rightarrow> error + 'f vec" where
  "column X i =
     (if 0 \<le> i \<and> i < int (ncols X) then Inr (map (\<lambda>r. r ! nat i) X)
      else if i < 0 \<and> - int (ncols X) \<le> i
        then Inr (map (\<lambda>r. r ! nat (int (ncols X) + i)) X)
      else Inl IndexError)"

subsection \<open>Objects and program state\<close>

text \<open>
  A covariance function is an object with identity: \<^verbatim>\<open>_updatepost\<close> compares two of
  them with \<^verbatim>\<open>==\<close>, which is identity for these classes, and \<^verbatim>\<open>CovLin\<close> keeps
  the mutable flag \<open>first_call\<close>. Objects live in a heap indexed by reference; a Python
  variable holds \<open>PyNone\<close> or a reference. The attributes \<^verbatim>\<open>ell\<close> and \<^verbatim>\<open>sf2\<close>
  are written at the start of every method that reads them, so they are local bindings
  here. \<open>ard_D\<close> is the attribute \<^verbatim>\<open>D\<close> of \<^verbatim>\<open>CovSqExpARD\<close>.
\<close>

datatype cov_obj = CovLin (first_call: bool) | CovSqExp | CovSqExpARD (ard_D: nat)
where
  "first_call CovSqExp = False"
| "first_call (CovSqExpARD d) = False"
| "ard_D (CovLin b) = 0"
| "ard_D CovSqExp = 0"

datatype pyref = PyNone | Ref nat

text \<open>
  \<^verbatim>\<open>self.hyp\<close> starts as the scalar \<^verbatim>\<open>np.nan\<close> and later holds a vector. A vector
  is a value here: the engine keeps the vector it was passed, which the caller does not
  change afterwards.
\<close>

datatype 'f hypval = HScalar 'f | HVec "'f vec"

text \<open>
  The state: the attributes of the one \<^verbatim>\<open>GPR\<close> instance (\<open>None\<close> where the
  attribute does not exist yet), the heap of covariance objects, and what has been
  printed. Printed values are left out of the printed lines.
\<close>

record 'f world =
  self_hyp :: "'f hypval"
  self_nlZ :: "'f"
  self_tol :: "'f"
  self_n_iter :: int
  self_verbose :: bool
  self_N :: "nat option"
  self_D :: "nat option"
  self_K :: "'f mat option"
  self_L :: "'f mat option"
  self_alpha :: "'f vec option"
  self_covfunc :: "pyref option"
  self_dnlZ :: "'f vec option"
  self_optimizer :: "string option"
  heap :: "nat \<Rightarrow> cov_obj"
  stdout :: "string list"

definition print :: "string \<Rightarrow> 'f world \<Rightarrow> 'f world" where
  "print s w = w\<lparr>stdout := stdout w @ [s]\<rparr>"

subsection \<open>Covariance functions\<close>

text \<open>\<^verbatim>\<open>get_n_params\<close> of the three concrete classes.\<close>

definition get_n_params :: "cov_obj \<Rightarrow> nat" where
  "get_n_params c = (case c of CovLin _ \<Rightarrow> 0 | CovSqExp \<Rightarrow> 2 | CovSqExpARD d \<Rightarrow> d + 1)"

text \<open>
  \<^verbatim>\<open>CovLin.cov\<close>. \<open>theta\<close> is \<open>None\<close> or a float vector, so
  \<^verbatim>\<open>theta[0] is not None\<close> holds whenever \<^verbatim>\<open>theta[0]\<close> exists; on an empty vector
  the subscript raises IndexError. The conjunction is evaluated left to right and stops
  at the first false operand.
\<close>

definition CovLin_cov ::
  "'f numpy \<Rightarrow> nat \<Rightarrow> 'f vec option \<Rightarrow> 'f mat \<Rightarrow> 'f mat option \<Rightarrow> 'f world
   \<Rightarrow> (error + 'f mat) \<times> 'f world" where
  "CovLin_cov P r theta x z w =
     (let z' = (case z of None \<Rightarrow> x | Some z0 \<Rightarrow> z0) in
      if \<not> first_call (heap w r) \<and> theta \<noteq> None then
        (case py_index (the theta) 0 of
           Inl e \<Rightarrow> (Inl e, w)
         | Inr t0 \<Rightarrow>
             (dot P x (mT z'),
              (print ''CovLin: unnecessary hyperparameter specified. Ignoring...'' w)
                \<lparr>heap := (heap w)(r := CovLin True)\<rparr>))
      else (dot P x (mT z'), w))"

definition CovLin_dcov :: "'f numpy \<Rightarrow> 'f vec option \<Rightarrow> 'f mat \<Rightarrow> int \<Rightarrow> error + 'f ndarray" where
  "CovLin_dcov P theta x i = (if i = 0 then Inr (A0 (fofint P 0)) else Inl ValueError)"

text \<open>\<^verbatim>\<open>theta[k]\<close> for a \<open>theta\<close> that may be \<open>None\<close>.\<close>

definition theta_at :: "'f vec option \<Rightarrow> int \<Rightarrow> error + 'f" where
  "theta_at theta k = (case theta of None \<Rightarrow> Inl TypeError | Some t \<Rightarrow> py_index t k)"

text \<open>\<^verbatim>\<open>sf2 * np.exp(-R/2)\<close>, the kernel matrix of both squared exponentials.\<close>

definition sqexp_K :: "'f numpy \<Rightarrow> 'f \<Rightarrow> 'f mat \<Rightarrow> 'f mat" where
  "sqexp_K P sf2 R = mmap (\<lambda>v. fmul P sf2 (fexp P (fdiv P (fneg P v) (fofint P 2)))) R"

definition CovSqExp_cov ::
  "'f numpy \<Rightarrow> 'f vec option \<Rightarrow> 'f mat \<Rightarrow> 'f mat option \<Rightarrow> error + 'f mat" where
  "CovSqExp_cov P theta x z =
     bindE (theta_at theta 0) (\<lambda>t0.
     bindE (theta_at theta 1) (\<lambda>t1.
       let ell = fexp P t0;
           sf2 = fexp P (fmul P (fofint P 2) t1);
           z' = (case z of None \<Rightarrow> x | Some z0 \<Rightarrow> z0)
       in bindE (squared_dist P (A2 (mmap (\<lambda>v. fdiv P v ell) x))
                                (A2 (mmap (\<lambda>v. fdiv P v ell) z'))) (\<lambda>R.
          Inr (sqexp_K P sf2 R))))"

definition CovSqExp_dcov :: "'f numpy \<Rightarrow> 'f vec option \<Rightarrow> 'f mat \<Rightarrow> int \<Rightarrow> error + 'f ndarray" where
  "CovSqExp_dcov P theta x i =
     bindE (theta_at theta 0) (\<lambda>t0.
     bindE (theta_at theta 1) (\<lambda>t1.
       let ell = fexp P t0;
           sf2 = fexp P (fmul P (fofint P 2) t1)
       in bindE (squared_dist P (A2 (mmap (\<lambda>v. fdiv P v ell) x))
                                (A2 (mmap (\<lambda>v. fdiv P v ell) x))) (\<lambda>R.
          if i = 0 then
            bindE (mbin (fmul P) (sqexp_K P sf2 R) R) (\<lambda>dK. Inr (A2 dK))
          else if i = 1 then Inr (A2 (sqexp_K P (fmul P (fofint P 2) sf2) R))
          else Inl ValueError)))"

text \<open>\<^verbatim>\<open>CovSqExpARD.__init__\<close>: the data matrix is required.\<close>

definition CovSqExpARD_init :: "'f mat option \<Rightarrow> error + cov_obj" where
  "CovSqExpARD_init x =
     (case x of None \<Rightarrow> Inl ValueError | Some x0 \<Rightarrow> Inr (CovSqExpARD (ncols x0)))"

text \<open>\<^verbatim>\<open>np.exp(theta[0:D])\<close>: a slice never raises on a sequence.\<close>

definition ARD_ell :: "'f numpy \<Rightarrow> nat \<Rightarrow> 'f vec option \<Rightarrow> error + 'f vec" where
  "ARD_ell P d theta =
     (case theta of None \<Rightarrow> Inl TypeError | Some t \<Rightarrow> Inr (map (fexp P) (take d t)))"

definition CovSqExpARD_cov ::
  "'f numpy \<Rightarrow> nat \<Rightarrow> 'f vec option \<Rightarrow> 'f mat \<Rightarrow> 'f mat option \<Rightarrow> error + 'f mat" where
  "CovSqExpARD_cov P d theta x z =
     bindE (ARD_ell P d theta) (\<lambda>ell.
     bindE (theta_at theta (int d)) (\<lambda>td.
       let sf2 = fexp P (fmul P (fofint P 2) td);
           z' = (case z of None \<Rightarrow> x | Some z0 \<Rightarrow> z0);
           S = diag_of_vec P (map (\<lambda>l. fdiv P (fofint P 1) l) ell)
       in bindE (dot P x S) (\<lambda>xs.
          bindE (dot P z' S) (\<lambda>zs.
          bindE (squared_dist P (A2 xs) (A2 zs)) (\<lambda>R.
          Inr (sqexp_K P sf2 R))))))"

text \<open>\<^verbatim>\<open>x[:, i]/self.ell[i]\<close>, an argument of \<^verbatim>\<open>squared_dist\<close> in \<^verbatim>\<open>CovSqExpARD.dcov\<close>.\<close>

definition ARD_scaled_column :: "'f numpy \<Rightarrow> 'f vec \<Rightarrow> 'f mat \<Rightarrow> int \<Rightarrow> error + 'f vec" where
  "ARD_scaled_column P ell x i =
     bindE (column x i) (\<lambda>c.
     bindE (py_index ell i) (\<lambda>l.
     Inr (map (\<lambda>v. fdiv P v l) c)))"

definition CovSqExpARD_dcov ::
  "'f numpy \<Rightarrow> nat \<Rightarrow> 'f vec option \<Rightarrow> 'f mat \<Rightarrow> int \<Rightarrow> error + 'f ndarray" where
  "CovSqExpARD_dcov P d theta x i =
     bindE (CovSqExpARD_cov P d theta x None) (\<lambda>K.
       if i < int d then
         bindE (ARD_ell P d theta) (\<lambda>ell.
         bindE (ARD_scaled_column P ell x i) (\<lambda>a.
         bindE (ARD_scaled_column P ell x i) (\<lambda>b.
         bindE (squared_dist P (A1 a) (A1 b)) (\<lambda>S.
         bindE (mbin (fmul P) K S) (\<lambda>dK.
         Inr (A2 dK))))))
       else if i = int d then Inr (A2 (mmap (\<lambda>v. fmul P (fofint P 2) v) K))
       else Inl ValueError)"

text \<open>
  Method calls on a variable: \<^verbatim>\<open>covfunc.cov(theta, x, z)\<close> and
  \<^verbatim>\<open>covfunc.dcov(theta, x, i)\<close>. On \<open>None\<close> the attribute lookup raises
  AttributeError; on an object the class of the object selects the method.
\<close>

definition covfunc_cov ::
  "'f numpy \<Rightarrow> pyref \<Rightarrow> 'f vec option \<Rightarrow> 'f mat \<Rightarrow> 'f mat option \<Rightarrow> 'f world
   \<Rightarrow> (error + 'f mat) \<times> 'f world" where
  "covfunc_cov P cf theta x z w =
     (case cf of
        PyNone \<Rightarrow> (Inl AttributeError, w)
      | Ref r \<Rightarrow>
          (case heap w r of
             CovLin _ \<Rightarrow> CovLin_cov P r theta x z w
           | CovSqExp \<Rightarrow> (CovSqExp_cov P theta x z, w)
           | CovSqExpARD d \<Rightarrow> (CovSqExpARD_cov P d theta x z, w)))"

definition covfunc_dcov ::
  "'f numpy \<Rightarrow> pyref \<Rightarrow> 'f vec option \<Rightarrow> 'f mat \<Rightarrow> int \<Rightarrow> 'f world \<Rightarrow> error + 'f ndarray" where
  "covfunc_dcov P cf theta x i w =
     (case cf of
        PyNone \<Rightarrow> Inl AttributeError
      | Ref r \<Rightarrow>
          (case heap w r of
             CovLin _ \<Rightarrow> CovLin_dcov P theta x i
           | CovSqExp \<Rightarrow> CovSqExp_dcov P theta x i
           | CovSqExpARD d \<Rightarrow> CovSqExpARD_dcov P d theta x i))"

subsection \<open>Statements: state and exceptions\<close>

text \<open>
  A statement of a \<^verbatim>\<open>GPR\<close> method takes the state and returns its result, or the
  exception it raised, with the state it left behind: an attribute assigned before an
  exception stays assigned.
\<close>

type_synonym ('a, 'f) prog = "'f world \<Rightarrow> (error + 'a) \<times> 'f world"

definition bindS :: "('a, 'f) prog \<Rightarrow> ('a \<Rightarrow> ('b, 'f) prog) \<Rightarrow> ('b, 'f) prog" where
  "bindS m f w = (case m w of (Inl e, w') \<Rightarrow> (Inl e, w') | (Inr v, w') \<Rightarrow> f v w')"

definition ret :: "'a \<Rightarrow> ('a, 'f) prog" where
  "ret v w = (Inr v, w)"

definition liftE :: "error + 'a \<Rightarrow> ('a, 'f) prog" where
  "liftE m w = (m, w)"

definition modify :: "('f world \<Rightarrow> 'f world) \<Rightarrow> (unit, 'f) prog" where
  "modify f w = (Inr (), f w)"

text \<open>Reading an attribute that may not exist yet.\<close>

definition attr :: "('f world \<Rightarrow> 'a option) \<Rightarrow> ('a, 'f) prog" where
  "attr sel w = (case sel w of None \<Rightarrow> (Inl AttributeError, w) | Some v \<Rightarrow> (Inr v, w))"

subsection \<open>The regression engine\<close>

text \<open>
  \<^verbatim>\<open>np.asarray(hyp == self.hyp).all()\<close> for a vector \<open>hyp\<close>. Against the scalar the
  comparison is made with every element. Two vectors are compared element by element
  when their lengths agree; a vector of length 1 is broadcast against the other one;
  for any other pair of lengths the comparison as a whole is \<^verbatim>\<open>False\<close> (the NumPy
  releases the file was written for; later ones raise instead).
\<close>

definition hyp_eq_all :: "'f numpy \<Rightarrow> 'f vec \<Rightarrow> 'f hypval \<Rightarrow> bool" where
  "hyp_eq_all P hyp s =
     (case s of
        HScalar c \<Rightarrow> list_all (\<lambda>a. feq P a c) hyp
      | HVec v \<Rightarrow>
          if length hyp = length v then list_all (\<lambda>(a, b). feq P a b) (zip hyp v)
          else if length hyp = 1 then list_all (\<lambda>b. feq P (hd hyp) b) v
          else if length v = 1 then list_all (\<lambda>a. feq P a (hd v)) hyp
          else False)"

text \<open>\<^verbatim>\<open>GPR._updatepost\<close>: \<open>True\<close> when the posterior has to be computed again.\<close>

definition updatepost :: "'f numpy \<Rightarrow> 'f vec \<Rightarrow> pyref \<Rightarrow> 'f world \<Rightarrow> bool" where
  "updatepost P hyp covfunc w =
     (if hyp_eq_all P hyp (self_hyp w) \<and> self_alpha w \<noteq> None \<and>
         (self_covfunc w \<noteq> None \<and> Some covfunc = self_covfunc w)
      then False else True)"

text \<open>\<^verbatim>\<open>np.exp(2*hyp[0])\<close>, the noise variance, from \<^verbatim>\<open>hyp[0]\<close>.\<close>

definition noise :: "'f numpy \<Rightarrow> 'f \<Rightarrow> 'f" where
  "noise P h0 = fexp P (fmul P (fofint P 2) h0)"

text \<open>
  \<^verbatim>\<open>GPR.post\<close>. \<open>X\<close> is two-dimensional (\<^verbatim>\<open>N x D data array\<close> in the docstring), so
  the reshaping of a one-dimensional \<open>X\<close> does not apply.
\<close>

definition post :: "'f numpy \<Rightarrow> 'f vec \<Rightarrow> pyref \<Rightarrow> 'f mat \<Rightarrow> 'f vec \<Rightarrow> (unit, 'f) prog" where
  "post P hyp covfunc X y =
     bindS (modify (\<lambda>w. w\<lparr>self_N := Some (length X), self_D := Some (ncols X)\<rparr>)) (\<lambda>_ w.
       if \<not> updatepost P hyp covfunc w then
         modify (print ''hyperparameters have not changed, using exising posterior'') w
       else
         bindS (liftE (py_index hyp 0)) (\<lambda>h0.
           let sn2 = noise P h0;
               theta = drop 1 hyp
           in
           bindS (modify (\<lambda>w. if self_verbose w
                               then print ''estimating posterior ... | hyp='' w else w)) (\<lambda>_.
           bindS (covfunc_cov P covfunc (Some theta) X None) (\<lambda>K.
           bindS (modify (\<lambda>w. w\<lparr>self_K := Some K\<rparr>)) (\<lambda>_.
           bindS (liftE (mbin (fadd P) K (mmap (fmul P sn2) (eye P (length X))))) (\<lambda>A.
           bindS (liftE (chol P A)) (\<lambda>L.
           bindS (modify (\<lambda>w. w\<lparr>self_L := Some L\<rparr>)) (\<lambda>_.
           bindS (liftE (solve_v P L y)) (\<lambda>t.
           bindS (liftE (solve_v P (mT L) t)) (\<lambda>a.
           modify (\<lambda>w. w\<lparr>self_alpha := Some a, self_hyp := HVec hyp,
                          self_covfunc := Some covfunc\<rparr>)))))))))) w)"

text \<open>\<^verbatim>\<open>1/np.finfo(float).eps\<close>.\<close>

definition sentinel :: "'f numpy \<Rightarrow> 'f" where
  "sentinel P = fdiv P (fofint P 1) (feps P)"

text \<open>
  The value assigned to \<^verbatim>\<open>self.nlZ\<close> in \<^verbatim>\<open>loglik\<close>. The built-in \<^verbatim>\<open>sum\<close>
  adds from the left, starting from the int 0.
\<close>

definition nlZ_value :: "'f numpy \<Rightarrow> 'f \<Rightarrow> 'f mat \<Rightarrow> nat \<Rightarrow> 'f" where
  "nlZ_value P q L N =
     fadd P
       (fadd P (fmul P (fhalf P) q)
               (foldl (fadd P) (fofint P 0) (map (flog P) (diag L))))
       (fmul P (fmul P (fhalf P) (fofint P (int N)))
               (flog P (fmul P (fofint P 2) (fpi P))))"

definition nlZ_expr :: "'f numpy \<Rightarrow> 'f vec \<Rightarrow> ('f, 'f) prog" where
  "nlZ_expr P y =
     bindS (attr self_alpha) (\<lambda>alpha.
     bindS (liftE (dot_vv P y alpha)) (\<lambda>q.
     bindS (attr self_L) (\<lambda>L.
     bindS (attr self_N) (\<lambda>N.
     ret (nlZ_value P q L N)))))"

text \<open>\<^verbatim>\<open>GPR.loglik\<close>. The handler catches ValueError and LinAlgError only.\<close>

definition loglik :: "'f numpy \<Rightarrow> 'f vec \<Rightarrow> pyref \<Rightarrow> 'f mat \<Rightarrow> 'f vec \<Rightarrow> ('f, 'f) prog" where
  "loglik P hyp covfunc X y w0 =
     (case (if updatepost P hyp covfunc w0 then post P hyp covfunc X y w0 else (Inr (), w0)) of
        (Inl e, w1) \<Rightarrow>
          if e = ValueError \<or> e = LinAlgError then
            (let w2 = (print ''Warning: Estimation of posterior distribution failed'' w1)
                        \<lparr>self_nlZ := sentinel P\<rparr>
             in (Inr (self_nlZ w2), w2))
          else (Inl e, w1)
      | (Inr _, w1) \<Rightarrow>
          bindS (nlZ_expr P y) (\<lambda>v.
          bindS (modify (\<lambda>w. w\<lparr>self_nlZ := v\<rparr>)) (\<lambda>_.
          bindS (modify (\<lambda>w. if \<not> isfinite P (self_nlZ w)
                              then w\<lparr>self_nlZ := sentinel P\<rparr> else w)) (\<lambda>_.
          bindS (modify (\<lambda>w. if self_verbose w then print ''nlZ= '' w else w)) (\<lambda>_ w.
          (Inr (self_nlZ w), w))))) w1)"

text \<open>
  \<^verbatim>\<open>Q*dK.T\<close> followed by \<^verbatim>\<open>np.sum(np.sum(...))\<close>: a zero-dimensional \<open>dK\<close> is
  multiplied into every element, a one-dimensional one is broadcast as a row.
\<close>

definition Q_times_dKT :: "'f numpy \<Rightarrow> 'f mat \<Rightarrow> 'f ndarray \<Rightarrow> error + 'f mat" where
  "Q_times_dKT P Q dK =
     (case dK of
        A0 s \<Rightarrow> Inr (mmap (\<lambda>q. fmul P q s) Q)
      | A1 v \<Rightarrow> mbin (fmul P) Q [v]
      | A2 M \<Rightarrow> mbin (fmul P) Q (mT M))"

text \<open>The loop over the covariance parameters in \<^verbatim>\<open>dloglik\<close>.\<close>

fun dloglik_loop ::
  "'f numpy \<Rightarrow> pyref \<Rightarrow> 'f vec \<Rightarrow> 'f mat \<Rightarrow> 'f mat \<Rightarrow> nat list \<Rightarrow> (unit, 'f) prog" where
  "dloglik_loop P covfunc theta X Q [] w = (Inr (), w)"
| "dloglik_loop P covfunc theta X Q (par # ps) w =
     bindS (\<lambda>w. liftE (covfunc_dcov P covfunc (Some theta) X (int par) w) w) (\<lambda>dK.
     bindS (liftE (Q_times_dKT P Q dK)) (\<lambda>M.
     bindS (attr self_dnlZ) (\<lambda>g.
     bindS (modify (\<lambda>w. w\<lparr>self_dnlZ :=
              Some (g[par + 1 := fmul P (fneg P (fhalf P)) (fsum P [fsum P (concat M)])])\<rparr>)) (\<lambda>_.
     dloglik_loop P covfunc theta X Q ps)))) w"

text \<open>\<^verbatim>\<open>np.sign(g) / np.finfo(float).eps\<close> on a vector.\<close>

definition sign_over_eps :: "'f numpy \<Rightarrow> 'f vec \<Rightarrow> 'f vec" where
  "sign_over_eps P g = map (\<lambda>x. fdiv P (fsign P x) (feps P)) g"

text \<open>
  \<^verbatim>\<open>GPR.dloglik\<close>. The repair of the non-finite components assigns
  \<^verbatim>\<open>sign/eps\<close> at exactly the indices where \<^verbatim>\<open>isfinite\<close> is false.
\<close>

definition dloglik :: "'f numpy \<Rightarrow> 'f vec \<Rightarrow> pyref \<Rightarrow> 'f mat \<Rightarrow> 'f vec \<Rightarrow> ('f vec, 'f) prog" where
  "dloglik P hyp covfunc X y w0 =
     (case py_index hyp 0 of
        Inl e \<Rightarrow> (Inl e, w0)
      | Inr h0 \<Rightarrow>
         (let sn2 = noise P h0;
              theta = drop 1 hyp
          in
          case (if updatepost P hyp covfunc w0 then post P hyp covfunc X y w0
                else (Inr (), w0)) of
            (Inl e, w1) \<Rightarrow>
              if e = ValueError \<or> e = LinAlgError then
                bindS (attr self_dnlZ) (\<lambda>g. ret (sign_over_eps P g))
                  (print ''Warning: Estimation of posterior distribution failed'' w1)
              else (Inl e, w1)
          | (Inr _, w1) \<Rightarrow>
              bindS (attr self_alpha) (\<lambda>alpha.
              bindS (attr self_L) (\<lambda>L.
              bindS (attr self_N) (\<lambda>N.
              bindS (liftE (solve_m P L (eye P N))) (\<lambda>S1.
              bindS (liftE (solve_m P (mT L) S1)) (\<lambda>S2.
              bindS (liftE (mbin (fsub P) (outer P alpha alpha) S2)) (\<lambda>Q.
              bindS (modify (\<lambda>w. w\<lparr>self_dnlZ := Some (replicate (length hyp) (fofint P 0))\<rparr>)) (\<lambda>_.
              bindS (modify (\<lambda>w. w\<lparr>self_dnlZ :=
                       Some ((the (self_dnlZ w))[0 := fmul P (fneg P sn2) (trace P Q)])\<rparr>)) (\<lambda>_.
              bindS (dloglik_loop P covfunc theta X Q [0..<length theta]) (\<lambda>_.
              bindS (modify (\<lambda>w. if \<not> list_all (isfinite P) (the (self_dnlZ w))
                                  then w\<lparr>self_dnlZ := Some (map (\<lambda>x. if isfinite P x then x
                                         else fdiv P (fsign P x) (feps P)) (the (self_dnlZ w)))\<rparr>
                                  else w)) (\<lambda>_.
              bindS (modify (\<lambda>w. if self_verbose w then print ''dnlZ= '' w else w)) (\<lambda>_.
              attr self_dnlZ))))))))))) w1))"

subsection \<open>Estimation and prediction\<close>

text \<open>
  The SciPy optimizers. Each receives the objective (and \<^verbatim>\<open>fmin_cg\<close> the gradient)
  as a method of the engine, so it runs in the state and may change it; it returns
  \<^verbatim>\<open>out[0]\<close> and \<^verbatim>\<open>out[1]\<close>, or the exception that ended it.
\<close>

record 'f scipy =
  fmin_cg :: "('f vec \<Rightarrow> ('f, 'f) prog) \<Rightarrow> 'f vec \<Rightarrow> ('f vec \<Rightarrow> ('f vec, 'f) prog)
              \<Rightarrow> 'f \<Rightarrow> int \<Rightarrow> ('f vec \<times> 'f, 'f) prog"
  fmin_powell :: "('f vec \<Rightarrow> ('f, 'f) prog) \<Rightarrow> 'f vec \<Rightarrow> ('f vec \<times> 'f, 'f) prog"

text \<open>\<^verbatim>\<open>str.lower\<close> on the ASCII letters.\<close>

definition lower_char :: "char \<Rightarrow> char" where
  "lower_char c =
     (let n = (of_char c :: nat) in if 65 \<le> n \<and> n \<le> 90 then char_of (n + 32) else c)"

definition lower :: "string \<Rightarrow> string" where
  "lower s = map lower_char s"

definition estimate ::
  "'f scipy \<Rightarrow> 'f numpy \<Rightarrow> 'f vec \<Rightarrow> pyref \<Rightarrow> 'f mat \<Rightarrow> 'f vec \<Rightarrow> string \<Rightarrow> ('f vec, 'f) prog" where
  "estimate S P hyp0 covfunc X y optimizer w0 =
     bindS (if lower optimizer = ''cg'' then
              fmin_cg S (\<lambda>h. loglik P h covfunc X y) hyp0 (\<lambda>h. dloglik P h covfunc X y)
                (self_tol w0) (self_n_iter w0)
            else if lower optimizer = ''powell'' then
              fmin_powell S (\<lambda>h. loglik P h covfunc X y) hyp0
            else liftE (Inl ValueError)) (\<lambda>out.
     bindS (modify (\<lambda>w. w\<lparr>self_hyp := HVec (fst out), self_nlZ := snd out,
                          self_optimizer := Some optimizer\<rparr>)) (\<lambda>_.
     ret (fst out))) w0"

text \<open>\<^verbatim>\<open>GPR.predict\<close>: the covariance function is the stored one.\<close>

definition predict ::
  "'f numpy \<Rightarrow> 'f vec \<Rightarrow> 'f mat \<Rightarrow> 'f vec \<Rightarrow> 'f mat \<Rightarrow> ('f vec \<times> 'f mat, 'f) prog" where
  "predict P hyp X y Xs =
     bindS (attr self_covfunc) (\<lambda>cf.
     bindS (\<lambda>w. if updatepost P hyp cf w then post P hyp cf X y w else (Inr (), w)) (\<lambda>_.
     bindS (liftE (py_index hyp 0)) (\<lambda>h0.
       let sn2 = noise P h0;
           theta = drop 1 hyp
       in
       bindS (covfunc_cov P cf (Some theta) Xs (Some X)) (\<lambda>Ks.
       bindS (covfunc_cov P cf (Some theta) Xs None) (\<lambda>kss.
       bindS (attr self_alpha) (\<lambda>alpha.
       bindS (liftE (dot_mv P Ks alpha)) (\<lambda>ymu.
       bindS (attr self_L) (\<lambda>L.
       bindS (liftE (solve_m P L (mT Ks))) (\<lambda>v.
       bindS (liftE (dot P (mT v) v)) (\<lambda>vtv.
       bindS (liftE (mbin (fsub P) kss vtv)) (\<lambda>d.
       ret (ymu, mmap (\<lambda>x. fadd P x sn2) d))))))))))))"

text \<open>
  \<^verbatim>\<open>GPR.__init__\<close>: the engine starts with \<^verbatim>\<open>hyp\<close> and \<^verbatim>\<open>nlZ\<close> set to NaN and the
  configuration stored; the posterior is computed at once when \<open>hyp\<close>, \<open>X\<close> and \<open>y\<close>
  are all given. \<open>h\<close> and \<open>out\<close> are the heap and the output at the time of the call.
\<close>

definition GPR_init ::
  "'f numpy \<Rightarrow> 'f vec option \<Rightarrow> pyref \<Rightarrow> 'f mat option \<Rightarrow> 'f vec option \<Rightarrow> int \<Rightarrow> 'f \<Rightarrow> bool
   \<Rightarrow> (nat \<Rightarrow> cov_obj) \<Rightarrow> string list \<Rightarrow> (error + unit) \<times> 'f world" where
  "GPR_init P hyp covfunc X y n_iter tol verbose h out =
     (let w = \<lparr>self_hyp = HScalar (fnan P), self_nlZ = fnan P, self_tol = tol,
               self_n_iter = n_iter, self_verbose = verbose, self_N = None, self_D = None,
               self_K = None, self_L = None, self_alpha = None, self_covfunc = None,
               self_dnlZ = None, self_optimizer = None, heap = h, stdout = out\<rparr>
      in if hyp \<noteq> None \<and> X \<noteq> None \<and> y \<noteq> None
         then post P (the hyp) covfunc (the X) (the y) w
         else (Inr (), w))"

subsection \<open>Notions used in the statements\<close>

text \<open>
  The state in which \<^verbatim>\<open>post\<close> calls the covariance function when it computes the
  posterior: \<^verbatim>\<open>N\<close> and \<^verbatim>\<open>D\<close> are assigned and the verbose line is printed.
\<close>

definition post_entry :: "'f mat \<Rightarrow> 'f world \<Rightarrow> 'f world" where
  "post_entry X w =
     (let w1 = w\<lparr>self_N := Some (length X), self_D := Some (ncols X)\<rparr>
      in if self_verbose w1 then print ''estimating posterior ... | hyp='' w1 else w1)"

text \<open>A statement keeps an attribute when no run of it changes the attribute's value.\<close>

definition keeps :: "('f world \<Rightarrow> 'a) \<Rightarrow> ('b, 'f) prog \<Rightarrow> bool" where
  "keeps sel m = (\<forall>w r w'. m w = (r, w') \<longrightarrow> sel w' = sel w)"

text \<open>The stored posterior: the kernel matrix, its Cholesky factor and the solve vector.\<close>

definition posterior :: "'f world \<Rightarrow> 'f mat option \<times> 'f mat option \<times> 'f vec option" where
  "posterior w = (self_K w, self_L w, self_alpha w)"

text \<open>
  The negative log marginal likelihood as the specification writes it:
  \<open>0.5 y\<^sup>T \<alpha> + \<Sum> log (diag L) + 0.5 N log (2 \<pi>)\<close>.
\<close>

definition nlZ_formula :: "'f numpy \<Rightarrow> 'f vec \<Rightarrow> 'f vec \<Rightarrow> 'f mat \<Rightarrow> nat \<Rightarrow> 'f" where
  "nlZ_formula P y alpha L N =
     fadd P
       (fadd P (fmul P (fhalf P) (fdot P y alpha))
               (foldl (fadd P) (fofint P 0) (map (flog P) (diag L))))
       (fmul P (fmul P (fhalf P) (fofint P (int N)))
               (flog P (fmul P (fofint P 2) (fpi P))))"

subsection \<open>A provider for the examples\<close>

text \<open>
  The examples below run the engine on a concrete provider: exact real arithmetic
  extended with the IEEE special values, and linear algebra on 1 x 1 systems (where the
  Cholesky factor of \<open>[[a]]\<close> is \<open>[[sqrt a]]\<close> and fails unless \<open>a\<close> is positive).
  The inputs of the examples are chosen so that float64 arithmetic gives the same
  values.
\<close>

datatype flt = Fin real | PInf | NInf | NaN

fun x_neg :: "flt \<Rightarrow> flt" where
  "x_neg (Fin a) = Fin (- a)"
| "x_neg PInf = NInf"
| "x_neg NInf = PInf"
| "x_neg NaN = NaN"

fun x_add :: "flt \<Rightarrow> flt \<Rightarrow> flt" where
  "x_add (Fin a) (Fin b) = Fin (a + b)"
| "x_add NaN _ = NaN"
| "x_add _ NaN = NaN"
| "x_add PInf NInf = NaN"
| "x_add NInf PInf = NaN"
| "x_add PInf _ = PInf"
| "x_add _ PInf = PInf"
| "x_add NInf _ = NInf"
| "x_add _ NInf = NInf"

definition x_sub :: "flt \<Rightarrow> flt \<Rightarrow> flt" where
  "x_sub a b = x_add a (x_neg b)"

text \<open>The sign of a value that is not NaN: -1, 0 or 1.\<close>

fun x_sgn :: "flt \<Rightarrow> real" where
  "x_sgn (Fin a) = sgn a"
| "x_sgn PInf = 1"
| "x_sgn NInf = - 1"
| "x_sgn NaN = 0"

definition x_inf :: "real \<Rightarrow> flt" where
  "x_inf s = (if s = 0 then NaN else if 0 < s then PInf else NInf)"

fun x_mul :: "flt \<Rightarrow> flt \<Rightarrow> flt" where
  "x_mul (Fin a) (Fin b) = Fin (a * b)"
| "x_mul NaN _ = NaN"
| "x_mul _ NaN = NaN"
| "x_mul a b = x_inf (x_sgn a * x_sgn b)"

fun x_div :: "flt \<Rightarrow> flt \<Rightarrow> flt" where
  "x_div (Fin a) (Fin b) = (if b = 0 then x_inf (sgn a) else Fin (a / b))"
| "x_div NaN _ = NaN"
| "x_div _ NaN = NaN"
| "x_div (Fin a) _ = Fin 0"
| "x_div a (Fin b) = x_inf (x_sgn a * (if b < 0 then - 1 else 1))"
| "x_div _ _ = NaN"

fun x_exp :: "flt \<Rightarrow> flt" where
  "x_exp (Fin a) = Fin (exp a)"
| "x_exp PInf = PInf"
| "x_exp NInf = Fin 0"
| "x_exp NaN = NaN"

fun x_log :: "flt \<Rightarrow> flt" where
  "x_log (Fin a) = (if 0 < a then Fin (ln a) else if a = 0 then NInf else NaN)"
| "x_log PInf = PInf"
| "x_log _ = NaN"

fun x_sign :: "flt \<Rightarrow> flt" where
  "x_sign NaN = NaN"
| "x_sign a = Fin (x_sgn a)"

fun x_eq :: "flt \<Rightarrow> flt \<Rightarrow> bool" where
  "x_eq (Fin a) (Fin b) = (a = b)"
| "x_eq PInf PInf = True"
| "x_eq NInf NInf = True"
| "x_eq _ _ = False"

fun x_isfinite :: "flt \<Rightarrow> bool" where
  "x_isfinite (Fin a) = True"
| "x_isfinite _ = False"

definition x_sum :: "flt list \<Rightarrow> flt" where
  "x_sum xs = foldl x_add (Fin 0) xs"

definition x_dot :: "flt list \<Rightarrow> flt list \<Rightarrow> flt" where
  "x_dot u v = x_sum (map (\<lambda>(a, b). x_mul a b) (zip u v))"

fun x_chol :: "flt mat \<Rightarrow> error + flt mat" where
  "x_chol [[Fin a]] = (if 0 < a then Inr [[Fin (sqrt a)]] else Inl LinAlgError)"
| "x_chol [[PInf]] = Inr [[PInf]]"
| "x_chol _ = Inl LinAlgError"

fun x_solve_m :: "flt mat \<Rightarrow> flt mat \<Rightarrow> error + flt mat" where
  "x_solve_m [[l]] [b] = (if x_eq l (Fin 0) then Inl LinAlgError
                          else Inr [map (\<lambda>v. x_div v l) b])"
| "x_solve_m _ _ = Inl LinAlgError"

fun x_solve_v :: "flt mat \<Rightarrow> flt vec \<Rightarrow> error + flt vec" where
  "x_solve_v [[l]] [b] = (if x_eq l (Fin 0) then Inl LinAlgError else Inr [x_div b l])"
| "x_solve_v _ _ = Inl LinAlgError"

text \<open>The rows of an array; a vector counts as a single column.\<close>

fun x_rows :: "flt ndarray \<Rightarrow> flt mat" where
  "x_rows (A0 a) = [[a]]"
| "x_rows (A1 v) = map (\<lambda>a. [a]) v"
| "x_rows (A2 m) = m"

text \<open>
  Modelled from the spec: \<^verbatim>\<open>utils.squared_dist\<close> is not in the source tree. Given
  \<open>A\<close> of shape N x D and \<open>B\<close> of shape M x D it returns the N x M matrix of squared
  distances between their rows.
\<close>

definition x_squared_dist :: "flt ndarray \<Rightarrow> flt ndarray \<Rightarrow> error + flt mat" where
  "x_squared_dist A B =
     (if ncols (x_rows A) \<noteq> ncols (x_rows B) then Inl ValueError
      else Inr (map (\<lambda>a. map (\<lambda>b.
             x_sum (map (\<lambda>(p, q). x_mul (x_sub p q) (x_sub p q)) (zip a b))) (x_rows B))
             (x_rows A)))"

definition exact :: "flt numpy" where
  "exact = \<lparr>fadd = x_add, fsub = x_sub, fmul = x_mul, fdiv = x_div, fneg = x_neg,
            fexp = x_exp, flog = x_log, fsign = x_sign, feq = x_eq,
            isfinite = x_isfinite, fofint = (\<lambda>n. Fin (of_int n)), fhalf = Fin (1 / 2),
            fpi = Fin pi, feps = Fin (1 / 2 ^ 52), fnan = NaN, fsum = x_sum, fdot = x_dot,
            chol = x_chol, solve_v = x_solve_v, solve_m = x_solve_m,
            squared_dist = x_squared_dist\<rparr>"

text \<open>
  An optimizer for the examples: it evaluates the objective (and the gradient) at the
  starting point and returns the starting point with its objective value.
\<close>

definition opt0 :: "flt scipy" where
  "opt0 = \<lparr>fmin_cg = (\<lambda>f x0 g gtol maxiter.
              bindS (f x0) (\<lambda>v. bindS (g x0) (\<lambda>_. ret (x0, v)))),
           fmin_powell = (\<lambda>f x0. bindS (f x0) (\<lambda>v. ret (x0, v)))\<rparr>"

text \<open>A freshly constructed engine \<^verbatim>\<open>GPR()\<close> beside one \<^verbatim>\<open>CovLin()\<close>,
  one \<^verbatim>\<open>CovSqExp()\<close> (reference 1) and one \<^verbatim>\<open>CovSqExpARD\<close> on one column
  (reference 2).\<close>

definition heap0 :: "nat \<Rightarrow> cov_obj" where
  "heap0 r = (if r = 1 then CovSqExp else if r = 2 then CovSqExpARD 1 else CovLin False)"

definition fresh :: "flt world" where
  "fresh = snd (GPR_init exact None PyNone None None 1000 (Fin (1 / 1000)) False heap0 [])"

text \<open>The engine after \<^verbatim>\<open>post([0, 0], CovLin(), [[0]], [2])\<close>.\<close>

definition trained :: "flt world" where
  "trained = snd (post exact [Fin 0, Fin 0] (Ref 0) [[Fin 0]] [Fin 2] fresh)"

text \<open>The engine after \<^verbatim>\<open>dloglik([0, 0], CovLin(), [[0]], [2])\<close> on \<open>trained\<close>.\<close>

definition graded :: "flt world" where
  "graded = snd (dloglik exact [Fin 0, Fin 0] (Ref 0) [[Fin 0]] [Fin 2] trained)"

section \<open>Properties\<close>

subsection \<open>Sequencing\<close>

lemma bindE_Inr [simp]: "bindE (Inr v) f = f v"
  by (simp add: bindE_def)

lemma bindE_Inl [simp]: "bindE (Inl e) f = Inl e"
  by (simp add: bindE_def)

lemma bindS_Inr: "m w = (Inr v, w') \<Longrightarrow> bindS m f w = f v w'"
  by (simp add: bindS_def)

lemma bindS_Inl: "m w = (Inl e, w') \<Longrightarrow> bindS m f w = (Inl e, w')"
  by (simp add: bindS_def)

lemma bindS_modify [simp]: "bindS (modify g) f w = f () (g w)"
  by (simp add: bindS_def modify_def)

lemma bindS_liftE_Inr [simp]: "bindS (liftE (Inr v)) f w = f v w"
  by (simp add: bindS_def liftE_def)

lemma bindS_liftE_Inl [simp]: "bindS (liftE (Inl e)) f w = (Inl e, w)"
  by (simp add: bindS_def liftE_def)

lemma bindS_ret [simp]: "bindS (ret v) f w = f v w"
  by (simp add: bindS_def ret_def)

lemma bindS_attr_Some: "sel w = Some v \<Longrightarrow> bindS (attr sel) f w = f v w"
  by (simp add: bindS_def attr_def)

lemma bindS_attr_None: "sel w = None \<Longrightarrow> bindS (attr sel) f w = (Inl AttributeError, w)"
  by (simp add: bindS_def attr_def)

subsection \<open>What a statement leaves unchanged\<close>

lemma keeps_bindS:
  "keeps sel m \<Longrightarrow> (\<And>v. keeps sel (f v)) \<Longrightarrow> keeps sel (bindS m f)"
  unfolding keeps_def bindS_def
  by (auto split: prod.splits sum.splits)

lemma keeps_liftE: "keeps sel (liftE m)"
  by (simp add: keeps_def liftE_def)

lemma keeps_ret: "keeps sel (ret v)"
  by (simp add: keeps_def ret_def)

lemma keeps_attr: "keeps sel (attr s)"
  by (auto simp: keeps_def attr_def split: option.splits)

lemma keeps_modify: "(\<And>w. sel (g w) = sel w) \<Longrightarrow> keeps sel (modify g)"
  by (simp add: keeps_def modify_def)

lemma keeps_if:
  "keeps sel a \<Longrightarrow> keeps sel b \<Longrightarrow> keeps sel (\<lambda>w. if c w then a w else b w)"
  by (auto simp: keeps_def split: if_splits)

lemma keeps_return: "keeps sel (\<lambda>w. (f w, w))"
  by (simp add: keeps_def)

lemma keepsD: "keeps sel m \<Longrightarrow> sel (snd (m w)) = sel w"
  by (cases "m w") (auto simp: keeps_def)

lemma keeps_covfunc_cov:
  assumes "\<And>w h. sel (w\<lparr>heap := h\<rparr>) = sel w"
    and "\<And>w s. sel (w\<lparr>stdout := s\<rparr>) = sel w"
  shows "keeps sel (covfunc_cov P cf theta x z)"
  using assms
  by (auto simp: keeps_def covfunc_cov_def CovLin_cov_def print_def Let_def
           split: pyref.splits cov_obj.splits if_splits sum.splits)

lemma keeps_post:
  assumes "\<And>w h. sel (w\<lparr>heap := h\<rparr>) = sel w"
    and "\<And>w s. sel (w\<lparr>stdout := s\<rparr>) = sel w"
    and "\<And>w n. sel (w\<lparr>self_N := n\<rparr>) = sel w"
    and "\<And>w d. sel (w\<lparr>self_D := d\<rparr>) = sel w"
    and "\<And>w k. sel (w\<lparr>self_K := k\<rparr>) = sel w"
    and "\<And>w l. sel (w\<lparr>self_L := l\<rparr>) = sel w"
    and "\<And>w a. sel (w\<lparr>self_alpha := a\<rparr>) = sel w"
    and "\<And>w h. sel (w\<lparr>self_hyp := h\<rparr>) = sel w"
    and "\<And>w c. sel (w\<lparr>self_covfunc := c\<rparr>) = sel w"
  shows "keeps sel (post P hyp covfunc X y)"
  unfolding post_def Let_def
  by (intro keeps_bindS keeps_if keeps_liftE keeps_modify keeps_covfunc_cov)
     (simp_all add: assms print_def)

lemma post_keeps_dnlZ: "self_dnlZ (snd (post P hyp covfunc X y w)) = self_dnlZ w"
  by (rule keepsD [OF keeps_post]) simp_all

lemma covfunc_cov_attrs:
  assumes "covfunc_cov P cf theta x z w = (r, w1)"
  shows "self_alpha w1 = self_alpha w \<and> self_L w1 = self_L w \<and> self_hyp w1 = self_hyp w
         \<and> self_covfunc w1 = self_covfunc w \<and> self_N w1 = self_N w \<and> self_K w1 = self_K w
         \<and> self_dnlZ w1 = self_dnlZ w \<and> self_nlZ w1 = self_nlZ w"
  using assms
  by (auto simp: covfunc_cov_def CovLin_cov_def print_def Let_def
           split: pyref.splits cov_obj.splits if_splits sum.splits)

lemma keeps_nlZ_expr: "keeps sel (nlZ_expr P y)"
  unfolding nlZ_expr_def
  by (intro keeps_bindS keeps_attr keeps_liftE keeps_ret)

lemma keeps_dloglik_loop:
  assumes "\<And>w g. sel (w\<lparr>self_dnlZ := g\<rparr>) = sel w"
  shows "keeps sel (dloglik_loop P cf theta X Q ps)"
proof (induction ps)
  case Nil
  show ?case by (simp add: keeps_def)
next
  case (Cons par ps)
  have step: "dloglik_loop P cf theta X Q (par # ps) =
     bindS (\<lambda>w. liftE (covfunc_dcov P cf (Some theta) X (int par) w) w) (\<lambda>dK.
     bindS (liftE (Q_times_dKT P Q dK)) (\<lambda>M.
     bindS (attr self_dnlZ) (\<lambda>g.
     bindS (modify (\<lambda>w. w\<lparr>self_dnlZ :=
              Some (g[par + 1 := fmul P (fneg P (fhalf P)) (fsum P [fsum P (concat M)])])\<rparr>)) (\<lambda>_.
     dloglik_loop P cf theta X Q ps))))"
    by (rule ext) simp
  have first: "keeps sel (\<lambda>w. liftE (covfunc_dcov P cf (Some theta) X (int par) w) w)"
    by (simp add: keeps_def liftE_def)
  show ?case
    unfolding step
    by (intro keeps_bindS first keeps_liftE keeps_attr keeps_modify Cons.IH)
       (simp add: assms)
qed

subsection \<open>Arrays\<close>

lemma length_mT [simp]: "length (mT z) = ncols z"
  by (simp add: mT_def)

lemma dot_mT:
  "dot P x (mT z) =
     (if ncols x \<noteq> ncols z then Inl ValueError
      else Inr (map (\<lambda>r. map (\<lambda>c. fdot P r c) (mT (mT z))) x))"
  by (simp add: dot_def)

lemma ncols_map_map [simp]: "ncols (map (map f) A) = ncols A"
  by (cases A) (simp_all add: ncols_def)

lemma diag_mmap:
  assumes "\<forall>row \<in> set A. length row = ncols A"
  shows "diag (mmap f A) = map f (diag A)"
proof -
  have "(map (map f) A) ! i ! i = f (A ! i ! i)"
    if "i < length A" and "i < ncols A" for i
  proof -
    have "length (A ! i) = ncols A"
      using assms that(1) by simp
    then show ?thesis
      using that by simp
  qed
  then show ?thesis
    by (simp add: diag_def mmap_def)
qed

lemma mbin_rows:
  assumes "mbin f A B = Inr d"
  shows "\<forall>row \<in> set d. length row = ncols d"
proof -
  obtain r c where d: "d = map (\<lambda>i. map (\<lambda>j. f (belem A i j) (belem B i j)) [0..<c]) [0..<r]"
    using assms by (auto simp: mbin_def split: option.splits)
  show ?thesis
  proof (cases r)
    case 0
    then show ?thesis by (simp add: d)
  next
    case (Suc n)
    then have "ncols d = c"
      by (simp add: d ncols_def upt_conv_Cons del: upt_Suc)
    then show ?thesis
      by (auto simp: d)
  qed
qed

subsection \<open>The posterior\<close>

lemma updatepost_shape [simp]:
  "updatepost P hyp cf (w\<lparr>self_N := n, self_D := d\<rparr>) = updatepost P hyp cf w"
  by (simp add: updatepost_def)

lemma post_entry_attrs [simp]:
  "self_alpha (post_entry X w) = self_alpha w"
  "self_L (post_entry X w) = self_L w"
  "self_hyp (post_entry X w) = self_hyp w"
  "self_covfunc (post_entry X w) = self_covfunc w"
  "self_nlZ (post_entry X w) = self_nlZ w"
  "self_dnlZ (post_entry X w) = self_dnlZ w"
  "self_K (post_entry X w) = self_K w"
  "self_N (post_entry X w) = Some (length X)"
  by (simp_all add: post_entry_def Let_def print_def)

lemma post_cached:
  "\<not> updatepost P hyp covfunc w \<Longrightarrow>
   post P hyp covfunc X y w =
     (Inr (), print ''hyperparameters have not changed, using exising posterior''
                (w\<lparr>self_N := Some (length X), self_D := Some (ncols X)\<rparr>))"
  by (simp add: post_def modify_def)

lemma post_computed:
  assumes "updatepost P hyp covfunc w"
    and "py_index hyp 0 = Inr h0"
    and "covfunc_cov P covfunc (Some (drop 1 hyp)) X None (post_entry X w) = (Inr K, w1)"
    and "mbin (fadd P) K (mmap (fmul P (noise P h0)) (eye P (length X))) = Inr A"
    and "chol P A = Inr L"
    and "solve_v P L y = Inr t"
    and "solve_v P (mT L) t = Inr a"
  shows "post P hyp covfunc X y w =
           (Inr (), w1\<lparr>self_K := Some K, self_L := Some L, self_alpha := Some a,
                       self_hyp := HVec hyp, self_covfunc := Some covfunc\<rparr>)"
  using assms
  by (simp add: post_def post_entry_def Let_def bindS_Inr modify_def)

lemma post_chol_raises:
  assumes "updatepost P hyp covfunc w"
    and "py_index hyp 0 = Inr h0"
    and "covfunc_cov P covfunc (Some (drop 1 hyp)) X None (post_entry X w) = (Inr K, w1)"
    and "mbin (fadd P) K (mmap (fmul P (noise P h0)) (eye P (length X))) = Inr A"
    and "chol P A = Inl e"
  shows "post P hyp covfunc X y w = (Inl e, w1\<lparr>self_K := Some K\<rparr>)"
  using assms
  by (simp add: post_def post_entry_def Let_def bindS_Inr)

lemma post_keeps_cache:
  assumes "covfunc_cov P cf theta X z w0 = (r, w1)"
  shows "self_alpha (w1\<lparr>self_K := k\<rparr>) = self_alpha w0
       \<and> self_L (w1\<lparr>self_K := k\<rparr>) = self_L w0
       \<and> self_hyp (w1\<lparr>self_K := k\<rparr>) = self_hyp w0
       \<and> self_covfunc (w1\<lparr>self_K := k\<rparr>) = self_covfunc w0
       \<and> self_nlZ (w1\<lparr>self_K := k\<rparr>) = self_nlZ w0"
  using covfunc_cov_attrs [OF assms] by simp

lemma post_success_covfunc:
  "post P hyp cf X y w = (Inr (), w1) \<Longrightarrow> self_covfunc w1 = Some cf"
  by (auto simp: post_def bindS_def modify_def liftE_def Let_def updatepost_def print_def
           split: if_splits prod.splits sum.splits)

lemma updatepost_shapes:
  "self_hyp w = HVec v \<Longrightarrow> length v = length hyp \<Longrightarrow>
     (\<not> updatepost P hyp cf w) =
       (list_all2 (feq P) hyp v \<and> self_alpha w \<noteq> None \<and> self_covfunc w = Some cf)"
  "self_hyp w = HVec v \<Longrightarrow> length v \<noteq> 1 \<Longrightarrow>
     (\<not> updatepost P [a] cf w) =
       ((\<forall>b\<in>set v. feq P a b) \<and> self_alpha w \<noteq> None \<and> self_covfunc w = Some cf)"
  "self_hyp w = HVec [b] \<Longrightarrow> length hyp \<noteq> 1 \<Longrightarrow>
     (\<not> updatepost P hyp cf w) =
       ((\<forall>a\<in>set hyp. feq P a b) \<and> self_alpha w \<noteq> None \<and> self_covfunc w = Some cf)"
  "self_hyp w = HVec v \<Longrightarrow> length hyp \<noteq> length v \<Longrightarrow> length hyp \<noteq> 1 \<Longrightarrow>
     length v \<noteq> 1 \<Longrightarrow> updatepost P hyp cf w"
  "self_hyp w = HScalar c \<Longrightarrow>
     (\<not> updatepost P hyp cf w) =
       ((\<forall>a\<in>set hyp. feq P a c) \<and> self_alpha w \<noteq> None \<and> self_covfunc w = Some cf)"
  "self_alpha w = None \<or> self_covfunc w \<noteq> Some cf \<Longrightarrow> updatepost P hyp cf w"
  by (auto simp: updatepost_def hyp_eq_all_def list_all2_iff list_all_iff)

subsection \<open>The likelihood and the gradient\<close>

lemma nlZ_expr_value:
  assumes "self_alpha w = Some a" and "self_L w = Some L" and "self_N w = Some n"
    and "length a = length y"
  shows "nlZ_expr P y w = (Inr (nlZ_formula P y a L n), w)"
  using assms
  by (simp add: nlZ_expr_def nlZ_formula_def nlZ_value_def bindS_attr_Some dot_vv_def ret_def)

lemma loglik_caught:
  assumes "updatepost P hyp covfunc w"
    and "post P hyp covfunc X y w = (Inl e, w1)"
    and "e = ValueError \<or> e = LinAlgError"
  shows "loglik P hyp covfunc X y w =
           (Inr (sentinel P),
            (print ''Warning: Estimation of posterior distribution failed'' w1)
              \<lparr>self_nlZ := sentinel P\<rparr>)"
  using assms by (auto simp: loglik_def Let_def)

lemma loglik_result:
  assumes "(if updatepost P hyp covfunc w then post P hyp covfunc X y w else (Inr (), w))
             = (Inr u, w1)"
    and "nlZ_expr P y w1 = (Inr v, w1)"
  shows "fst (loglik P hyp covfunc X y w) = Inr (if isfinite P v then v else sentinel P)
         \<and> self_nlZ (snd (loglik P hyp covfunc X y w))
             = (if isfinite P v then v else sentinel P)"
  using assms
  by (simp add: loglik_def bindS_Inr modify_def print_def)

lemma loglik_computed:
  assumes "updatepost P hyp covfunc w"
    and "py_index hyp 0 = Inr h0"
    and "covfunc_cov P covfunc (Some (drop 1 hyp)) X None (post_entry X w) = (Inr K, w1)"
    and "mbin (fadd P) K (mmap (fmul P (noise P h0)) (eye P (length X))) = Inr A"
    and "chol P A = Inr L"
    and "solve_v P L y = Inr t"
    and "solve_v P (mT L) t = Inr alpha"
    and "length alpha = length y"
  shows "self_L (snd (post P hyp covfunc X y w)) = Some L"
    and "self_alpha (snd (post P hyp covfunc X y w)) = Some alpha"
    and "fst (loglik P hyp covfunc X y w) =
           Inr (if isfinite P (nlZ_formula P y alpha L (length X))
                then nlZ_formula P y alpha L (length X) else sentinel P)"
proof -
  let ?w2 = "w1\<lparr>self_K := Some K, self_L := Some L, self_alpha := Some alpha,
                 self_hyp := HVec hyp, self_covfunc := Some covfunc\<rparr>"
  have p: "post P hyp covfunc X y w = (Inr (), ?w2)"
    using assms(1-7) by (rule post_computed)
  show "self_L (snd (post P hyp covfunc X y w)) = Some L"
    and "self_alpha (snd (post P hyp covfunc X y w)) = Some alpha"
    by (simp_all add: p)
  have "self_N w1 = self_N (post_entry X w)"
    using covfunc_cov_attrs [OF assms(3)] by simp
  then have n: "self_N ?w2 = Some (length X)"
    by simp
  have "nlZ_expr P y ?w2 = (Inr (nlZ_formula P y alpha L (length X)), ?w2)"
    by (rule nlZ_expr_value) (simp_all add: n assms(8))
  with p assms(1) show "fst (loglik P hyp covfunc X y w) =
           Inr (if isfinite P (nlZ_formula P y alpha L (length X))
                then nlZ_formula P y alpha L (length X) else sentinel P)"
    using loglik_result [of P hyp covfunc w X y "()" ?w2] by simp
qed

lemma loglik_cached:
  assumes "\<not> updatepost P hyp covfunc w"
    and "self_alpha w = Some alpha" and "self_L w = Some L" and "self_N w = Some n"
    and "length alpha = length y"
  shows "fst (loglik P hyp covfunc X y w) =
           Inr (if isfinite P (nlZ_formula P y alpha L n)
                then nlZ_formula P y alpha L n else sentinel P)"
proof -
  have "nlZ_expr P y w = (Inr (nlZ_formula P y alpha L n), w)"
    using assms(2-5) by (rule nlZ_expr_value)
  then show ?thesis
    using loglik_result [of P hyp covfunc w X y "()" w] assms(1) by simp
qed

lemma loglik_frame:
  assumes "\<And>w z. sel (w\<lparr>self_nlZ := z\<rparr>) = sel w"
    and "\<And>w s. sel (w\<lparr>stdout := s\<rparr>) = sel w"
  shows "sel (snd (loglik P hyp cf X y w)) =
     sel (snd (if updatepost P hyp cf w then post P hyp cf X y w else (Inr (), w)))"
proof -
  obtain r w1 where pre:
    "(if updatepost P hyp cf w then post P hyp cf X y w else (Inr (), w)) = (r, w1)"
    by (cases "if updatepost P hyp cf w then post P hyp cf X y w else (Inr (), w)") auto
  have body: "keeps sel
     (bindS (nlZ_expr P y) (\<lambda>v.
      bindS (modify (\<lambda>w. w\<lparr>self_nlZ := v\<rparr>)) (\<lambda>_.
      bindS (modify (\<lambda>w. if \<not> isfinite P (self_nlZ w)
                          then w\<lparr>self_nlZ := sentinel P\<rparr> else w)) (\<lambda>_.
      bindS (modify (\<lambda>w. if self_verbose w then print ''nlZ= '' w else w)) (\<lambda>_ w.
      (Inr (self_nlZ w), w))))))"
    by (intro keeps_bindS keeps_nlZ_expr keeps_modify keeps_return)
       (simp_all add: assms print_def)
  show ?thesis
  proof (cases r)
    case (Inl e)
    then show ?thesis
      using pre by (simp add: loglik_def Let_def assms print_def)
  next
    case (Inr u)
    then show ?thesis
      using pre keepsD [OF body, of w1] by (simp add: loglik_def)
  qed
qed

lemma loglik_posterior:
  "posterior (snd (loglik P hyp cf X y w)) =
     posterior (snd (if updatepost P hyp cf w then post P hyp cf X y w else (Inr (), w)))"
  by (rule loglik_frame) (simp_all add: posterior_def)

lemma dloglik_caught:
  assumes "py_index hyp 0 = Inr h0"
    and "updatepost P hyp covfunc w"
    and "fst (post P hyp covfunc X y w) = Inl e"
    and "e = ValueError \<or> e = LinAlgError"
  shows "fst (dloglik P hyp covfunc X y w) =
           (case self_dnlZ w of None \<Rightarrow> Inl AttributeError
            | Some g \<Rightarrow> Inr (sign_over_eps P g))"
proof -
  obtain w1 where p: "post P hyp covfunc X y w = (Inl e, w1)"
    using assms(3) by (cases "post P hyp covfunc X y w") auto
  have "self_dnlZ w1 = self_dnlZ w"
    using post_keeps_dnlZ [of P hyp covfunc X y w] p by simp
  then show ?thesis
    using assms p
    by (auto simp: dloglik_def Let_def bindS_def attr_def ret_def print_def
             split: option.splits)
qed

lemma dloglik_no_hyp:
  "py_index hyp 0 = Inl e \<Longrightarrow> dloglik P hyp cf X y w = (Inl e, w)"
  by (simp add: dloglik_def)

lemma dloglik_frame:
  assumes "py_index hyp 0 = Inr h0"
    and "\<And>w g. sel (w\<lparr>self_dnlZ := g\<rparr>) = sel w"
    and "\<And>w s. sel (w\<lparr>stdout := s\<rparr>) = sel w"
  shows "sel (snd (dloglik P hyp cf X y w)) =
     sel (snd (if updatepost P hyp cf w then post P hyp cf X y w else (Inr (), w)))"
proof -
  obtain r w1 where pre:
    "(if updatepost P hyp cf w then post P hyp cf X y w else (Inr (), w)) = (r, w1)"
    by (cases "if updatepost P hyp cf w then post P hyp cf X y w else (Inr (), w)") auto
  have handler: "keeps sel (bindS (attr self_dnlZ) (\<lambda>g. ret (sign_over_eps P g)))"
    by (intro keeps_bindS keeps_attr keeps_ret)
  have body: "keeps sel
     (bindS (attr self_alpha) (\<lambda>alpha.
      bindS (attr self_L) (\<lambda>L.
      bindS (attr self_N) (\<lambda>N.
      bindS (liftE (solve_m P L (eye P N))) (\<lambda>S1.
      bindS (liftE (solve_m P (mT L) S1)) (\<lambda>S2.
      bindS (liftE (mbin (fsub P) (outer P alpha alpha) S2)) (\<lambda>Q.
      bindS (modify (\<lambda>w. w\<lparr>self_dnlZ := Some (replicate (length hyp) (fofint P 0))\<rparr>)) (\<lambda>_.
      bindS (modify (\<lambda>w. w\<lparr>self_dnlZ :=
               Some ((the (self_dnlZ w))[0 := fmul P (fneg P (noise P h0)) (trace P Q)])\<rparr>)) (\<lambda>_.
      bindS (dloglik_loop P cf (drop 1 hyp) X Q [0..<length (drop 1 hyp)]) (\<lambda>_.
      bindS (modify (\<lambda>w. if \<not> list_all (isfinite P) (the (self_dnlZ w))
                          then w\<lparr>self_dnlZ := Some (map (\<lambda>x. if isfinite P x then x
                                 else fdiv P (fsign P x) (feps P)) (the (self_dnlZ w)))\<rparr>
                          else w)) (\<lambda>_.
      bindS (modify (\<lambda>w. if self_verbose w then print ''dnlZ= '' w else w)) (\<lambda>_.
      attr self_dnlZ))))))))))))"
    by (intro keeps_bindS keeps_attr keeps_liftE keeps_modify keeps_dloglik_loop)
       (simp_all add: assms(2,3) print_def)
  show ?thesis
  proof (cases r)
    case (Inl e)
    then show ?thesis
      using pre assms(1)
        keepsD [OF handler, of "print ''Warning: Estimation of posterior distribution failed'' w1"]
      by (simp add: dloglik_def Let_def) (simp add: assms(2,3) print_def)
  next
    case (Inr u)
    then show ?thesis
      using pre assms(1) keepsD [OF body, of w1] by (simp add: dloglik_def Let_def)
  qed
qed

lemma dloglik_posterior:
  assumes "py_index hyp 0 = Inr h0"
  shows "posterior (snd (dloglik P hyp cf X y w)) =
     posterior (snd (if updatepost P hyp cf w then post P hyp cf X y w else (Inr (), w)))"
  by (rule dloglik_frame [OF assms]) (simp_all add: posterior_def)

subsection \<open>Prediction\<close>

lemma predict_run:
  assumes "self_covfunc w = Some cf"
    and "(if updatepost P hyp cf w then post P hyp cf X y w else (Inr (), w)) = (Inr u, w0)"
    and "py_index hyp 0 = Inr h0"
    and "covfunc_cov P cf (Some (drop 1 hyp)) Xs (Some X) w0 = (Inr Ks, w1)"
    and "covfunc_cov P cf (Some (drop 1 hyp)) Xs None w1 = (Inr kss, w2)"
    and "self_alpha w0 = Some alpha"
    and "self_L w0 = Some L"
    and "ncols Ks = length alpha"
    and "solve_m P L (mT Ks) = Inr V"
    and "dot P (mT V) V = Inr VtV"
    and "mbin (fsub P) kss VtV = Inr d"
  shows "predict P hyp X y Xs w =
           (Inr (map (\<lambda>r. fdot P r alpha) Ks, mmap (\<lambda>x. fadd P x (noise P h0)) d), w2)"
proof -
  have a1: "self_alpha w1 = Some alpha" "self_L w1 = Some L"
    using covfunc_cov_attrs [OF assms(4)] assms(6,7) by simp_all
  then have a2: "self_alpha w2 = Some alpha" "self_L w2 = Some L"
    using covfunc_cov_attrs [OF assms(5)] by simp_all
  have m: "dot_mv P Ks alpha = Inr (map (\<lambda>r. fdot P r alpha) Ks)"
    using assms(8) by (simp add: dot_mv_def)
  have 1: "bindS (attr self_covfunc) f w = f cf w" for f :: "pyref \<Rightarrow> ('c, 'a) prog"
    using assms(1) by (simp add: bindS_attr_Some)
  have 2: "bindS (\<lambda>w. if updatepost P hyp cf w then post P hyp cf X y w else (Inr (), w)) f w
             = f u w0" for f :: "unit \<Rightarrow> ('c, 'a) prog"
    using assms(2) by (simp add: bindS_def)
  have 3: "bindS (covfunc_cov P cf (Some (drop 1 hyp)) Xs (Some X)) f w0 = f Ks w1"
    for f :: "'a mat \<Rightarrow> ('c, 'a) prog"
    using assms(4) by (simp add: bindS_def)
  have 4: "bindS (covfunc_cov P cf (Some (drop 1 hyp)) Xs None) f w1 = f kss w2"
    for f :: "'a mat \<Rightarrow> ('c, 'a) prog"
    using assms(5) by (simp add: bindS_def)
  have 5: "bindS (attr self_alpha) f w2 = f alpha w2" for f :: "'a vec \<Rightarrow> ('c, 'a) prog"
    using a2(1) by (simp add: bindS_attr_Some)
  have 6: "bindS (attr self_L) f w2 = f L w2" for f :: "'a mat \<Rightarrow> ('c, 'a) prog"
    using a2(2) by (simp add: bindS_attr_Some)
  show ?thesis
    unfolding predict_def Let_def 1 2
    by (simp only: assms(3) bindS_liftE_Inr 3 4 5 6 m assms(9,10,11) ret_def)
qed

lemma predict_no_covfunc:
  "self_covfunc w = None \<Longrightarrow> predict P hyp X y Xs w = (Inl AttributeError, w)"
  by (simp add: predict_def bindS_attr_None)

lemma predict_frame:
  assumes "self_covfunc w = Some cf"
    and "\<And>w h. sel (w\<lparr>heap := h\<rparr>) = sel w"
    and "\<And>w s. sel (w\<lparr>stdout := s\<rparr>) = sel w"
  shows "sel (snd (predict P hyp X y Xs w)) =
     sel (snd (if updatepost P hyp cf w then post P hyp cf X y w else (Inr (), w)))"
proof -
  obtain r w1 where pre:
    "(if updatepost P hyp cf w then post P hyp cf X y w else (Inr (), w)) = (r, w1)"
    by (cases "if updatepost P hyp cf w then post P hyp cf X y w else (Inr (), w)") auto
  have body: "keeps sel
     (bindS (liftE (py_index hyp 0)) (\<lambda>h0.
       bindS (covfunc_cov P cf (Some (drop 1 hyp)) Xs (Some X)) (\<lambda>Ks.
       bindS (covfunc_cov P cf (Some (drop 1 hyp)) Xs None) (\<lambda>kss.
       bindS (attr self_alpha) (\<lambda>alpha.
       bindS (liftE (dot_mv P Ks alpha)) (\<lambda>ymu.
       bindS (attr self_L) (\<lambda>L.
       bindS (liftE (solve_m P L (mT Ks))) (\<lambda>v.
       bindS (liftE (dot P (mT v) v)) (\<lambda>vtv.
       bindS (liftE (mbin (fsub P) kss vtv)) (\<lambda>d.
       ret (ymu, mmap (\<lambda>x. fadd P x (noise P h0)) d)))))))))))"
    by (intro keeps_bindS keeps_attr keeps_liftE keeps_ret keeps_covfunc_cov)
       (simp_all add: assms(2,3))
  have start: "predict P hyp X y Xs w =
     bindS (\<lambda>w. if updatepost P hyp cf w then post P hyp cf X y w else (Inr (), w)) (\<lambda>_.
     bindS (liftE (py_index hyp 0)) (\<lambda>h0.
       bindS (covfunc_cov P cf (Some (drop 1 hyp)) Xs (Some X)) (\<lambda>Ks.
       bindS (covfunc_cov P cf (Some (drop 1 hyp)) Xs None) (\<lambda>kss.
       bindS (attr self_alpha) (\<lambda>alpha.
       bindS (liftE (dot_mv P Ks alpha)) (\<lambda>ymu.
       bindS (attr self_L) (\<lambda>L.
       bindS (liftE (solve_m P L (mT Ks))) (\<lambda>v.
       bindS (liftE (dot P (mT v) v)) (\<lambda>vtv.
       bindS (liftE (mbin (fsub P) kss vtv)) (\<lambda>d.
       ret (ymu, mmap (\<lambda>x. fadd P x (noise P h0)) d))))))))))) w"
    unfolding predict_def Let_def
    by (rule bindS_attr_Some [of self_covfunc, OF assms(1)])
  show ?thesis
  proof (cases r)
    case (Inl e)
    then show ?thesis
      using pre by (simp add: start bindS_Inl)
  next
    case (Inr u)
    then show ?thesis
      using pre keepsD [OF body, of w1] by (simp add: start bindS_Inr)
  qed
qed

lemma predict_posterior:
  assumes "self_covfunc w = Some cf"
  shows "posterior (snd (predict P hyp X y Xs w)) =
     posterior (snd (if updatepost P hyp cf w then post P hyp cf X y w else (Inr (), w)))"
  by (rule predict_frame [OF assms]) (simp_all add: posterior_def)

lemma cached_posterior:
  assumes "\<not> updatepost P hyp cf w"
  shows "fst (post P hyp cf X y w) = Inr ()"
    and "posterior (snd (post P hyp cf X y w)) = posterior w"
    and "posterior (snd (loglik P hyp cf X y w)) = posterior w"
    and "posterior (snd (dloglik P hyp cf X y w)) = posterior w"
    and "posterior (snd (predict P hyp X y Xs w)) = posterior w"
proof -
  show "fst (post P hyp cf X y w) = Inr ()"
    and "posterior (snd (post P hyp cf X y w)) = posterior w"
    using post_cached [OF assms, of X y] by (simp_all add: posterior_def print_def)
  show "posterior (snd (loglik P hyp cf X y w)) = posterior w"
    using loglik_posterior [of P hyp cf X y w] assms by simp
  show "posterior (snd (dloglik P hyp cf X y w)) = posterior w"
  proof (cases "py_index hyp 0")
    case (Inl e)
    then show ?thesis by (simp add: dloglik_no_hyp)
  next
    case (Inr h0)
    then show ?thesis
      using dloglik_posterior [of hyp h0 P cf X y w] assms by simp
  qed
  have "self_covfunc w = Some cf"
    using assms by (cases "self_covfunc w") (auto simp: updatepost_def split: if_splits)
  then show "posterior (snd (predict P hyp X y Xs w)) = posterior w"
    using predict_posterior [of w cf P hyp X y Xs] assms by simp
qed

lemma stale_posterior:
  assumes "updatepost P hyp cf w"
  shows "posterior (snd (loglik P hyp cf X y w)) = posterior (snd (post P hyp cf X y w))"
    and "hyp \<noteq> [] \<Longrightarrow>
         posterior (snd (dloglik P hyp cf X y w)) = posterior (snd (post P hyp cf X y w))"
    and "self_covfunc w = Some cf \<Longrightarrow>
         posterior (snd (predict P hyp X y Xs w)) = posterior (snd (post P hyp cf X y w))"
proof -
  show "posterior (snd (loglik P hyp cf X y w)) = posterior (snd (post P hyp cf X y w))"
    using loglik_posterior [of P hyp cf X y w] assms by simp
  show "posterior (snd (dloglik P hyp cf X y w)) = posterior (snd (post P hyp cf X y w))"
    if "hyp \<noteq> []"
  proof -
    have "py_index hyp 0 = Inr (hyp ! 0)"
      using that by (simp add: py_index_def)
    then show ?thesis
      using dloglik_posterior [of hyp "hyp ! 0" P cf X y w] assms by simp
  qed
  show "posterior (snd (predict P hyp X y Xs w)) = posterior (snd (post P hyp cf X y w))"
    if "self_covfunc w = Some cf"
    using predict_posterior [OF that, of P hyp X y Xs] assms by simp
qed

lemma post_covfunc_stays:
  assumes "self_covfunc w \<noteq> None"
  shows "self_covfunc (snd (post P hyp cf X y w)) \<noteq> None"
proof (cases "updatepost P hyp cf w")
  case False
  then show ?thesis
    using assms post_cached [of P hyp cf w X y] by (simp add: print_def)
next
  case True
  obtain r w3 where c:
    "covfunc_cov P cf (Some (drop 1 hyp)) X None (post_entry X w) = (r, w3)"
    by (cases "covfunc_cov P cf (Some (drop 1 hyp)) X None (post_entry X w)") auto
  have k: "self_covfunc w3 \<noteq> None"
    using covfunc_cov_attrs [OF c] assms by simp
  show ?thesis
    using True c k assms
    by (auto simp: post_def post_entry_def bindS_def modify_def liftE_def Let_def
             split: sum.splits)
qed

lemma covfunc_stays:
  assumes "self_covfunc w \<noteq> None"
  shows "self_covfunc (snd (loglik P hyp cf X y w)) \<noteq> None"
    and "self_covfunc (snd (dloglik P hyp cf X y w)) \<noteq> None"
    and "self_covfunc (snd (predict P hyp X y Xs w)) \<noteq> None"
proof -
  have pre: "self_covfunc
      (snd (if updatepost P hyp c w then post P hyp c X y w else (Inr (), w))) \<noteq> None" for c
    using assms post_covfunc_stays [OF assms, of P hyp c X y] by simp
  show "self_covfunc (snd (loglik P hyp cf X y w)) \<noteq> None"
    using loglik_frame [of self_covfunc P hyp cf X y w] pre [of cf] by simp
  show "self_covfunc (snd (dloglik P hyp cf X y w)) \<noteq> None"
  proof (cases "py_index hyp 0")
    case (Inl e)
    then show ?thesis using assms by (simp add: dloglik_no_hyp)
  next
    case (Inr h0)
    then show ?thesis
      using dloglik_frame [of hyp h0 self_covfunc P cf X y w] pre [of cf] by simp
  qed
  obtain c where c: "self_covfunc w = Some c"
    using assms by auto
  show "self_covfunc (snd (predict P hyp X y Xs w)) \<noteq> None"
    using predict_frame [OF c, of self_covfunc P hyp X y Xs] pre [of c] by simp
qed

subsection \<open>Covariance functions\<close>

lemma CovSqExp_dcov_fails:
  assumes "i < 0 \<or> 2 \<le> i"
  shows "\<exists>e. CovSqExp_dcov P theta x i = Inl e"
  using assms
  by (auto simp: CovSqExp_dcov_def bindE_def Let_def split: sum.splits)

lemma CovSqExpARD_dcov_fails:
  assumes "int d < i"
  shows "\<exists>e. CovSqExpARD_dcov P d theta x i = Inl e"
  using assms
  by (auto simp: CovSqExpARD_dcov_def bindE_def split: sum.splits)

subsection \<open>Running the examples\<close>

lemmas arr_simps = ncols_def mT_def dot_def dot_mv_def dot_vv_def bshape_def belem_def
  mbin_def mmap_def eye_def diag_of_vec_def diag_def outer_def trace_def py_index_def
  column_def

lemmas x_simps = exact_def x_sum_def x_dot_def x_sub_def x_inf_def x_squared_dist_def
  noise_def sentinel_def

lemmas run_simps = covfunc_cov_def CovLin_cov_def print_def heap0_def post_entry_def
  updatepost_def hyp_eq_all_def Let_def

lemmas prog_simps = bindS_def modify_def liftE_def ret_def attr_def

lemma fresh_eq:
  "fresh = \<lparr>self_hyp = HScalar NaN, self_nlZ = NaN, self_tol = Fin (1 / 1000),
            self_n_iter = 1000, self_verbose = False, self_N = None, self_D = None,
            self_K = None, self_L = None, self_alpha = None, self_covfunc = None,
            self_dnlZ = None, self_optimizer = None, heap = heap0, stdout = []\<rparr>"
  by (simp add: fresh_def GPR_init_def exact_def)

lemma fresh_stale: "updatepost exact hyp cf fresh"
  by (simp add: fresh_eq updatepost_def)

lemma ex_cov_lin:
  "\<exists>w1. covfunc_cov exact (Ref 0) (Some [Fin 0]) [[Fin 0]] None (post_entry [[Fin 0]] fresh)
         = (Inr [[Fin 0]], w1)"
  by (simp add: fresh_eq run_simps arr_simps x_simps)

lemma ex_A1:
  "mbin (fadd exact) [[Fin 0]] (mmap (fmul exact (noise exact (Fin 0))) (eye exact (length [[Fin 0 :: flt]])))
     = Inr [[Fin 1]]"
  by (simp add: arr_simps x_simps)

lemma ex_A0:
  "mbin (fadd exact) [[Fin 0]] (mmap (fmul exact (noise exact NInf)) (eye exact (length [[Fin 0 :: flt]])))
     = Inr [[Fin 0]]"
  by (simp add: arr_simps x_simps)

lemma ex_post_singular:
  "fst (post exact [NInf, Fin 0] (Ref 0) [[Fin 0]] y fresh) = Inl LinAlgError"
proof -
  obtain w1 where c:
    "covfunc_cov exact (Ref 0) (Some (drop 1 [NInf, Fin 0])) [[Fin 0]] None
       (post_entry [[Fin 0]] fresh) = (Inr [[Fin 0]], w1)"
    using ex_cov_lin by auto
  have i: "py_index [NInf, Fin 0] 0 = Inr NInf"
    by (simp add: py_index_def)
  have l: "chol exact [[Fin 0]] = Inl LinAlgError"
    by (simp add: exact_def)
  show ?thesis
    using post_chol_raises [OF fresh_stale i c ex_A0 l] by simp
qed

lemma post_trained:
  "post exact [Fin 0, Fin 0] (Ref 0) [[Fin 0]] [Fin 2] fresh =
     (Inr (),
      \<lparr>self_hyp = HVec [Fin 0, Fin 0], self_nlZ = NaN, self_tol = Fin (1 / 1000),
       self_n_iter = 1000, self_verbose = False, self_N = Some 1, self_D = Some 1,
       self_K = Some [[Fin 0]], self_L = Some [[Fin 1]], self_alpha = Some [Fin 2],
       self_covfunc = Some (Ref 0), self_dnlZ = None, self_optimizer = None,
       heap = heap0(0 := CovLin True),
       stdout = [''CovLin: unnecessary hyperparameter specified. Ignoring...'']\<rparr>)"
  by (simp add: post_def fresh_eq run_simps arr_simps x_simps prog_simps)

lemma trained_eq:
  "trained =
      \<lparr>self_hyp = HVec [Fin 0, Fin 0], self_nlZ = NaN, self_tol = Fin (1 / 1000),
       self_n_iter = 1000, self_verbose = False, self_N = Some 1, self_D = Some 1,
       self_K = Some [[Fin 0]], self_L = Some [[Fin 1]], self_alpha = Some [Fin 2],
       self_covfunc = Some (Ref 0), self_dnlZ = None, self_optimizer = None,
       heap = heap0(0 := CovLin True),
       stdout = [''CovLin: unnecessary hyperparameter specified. Ignoring...'']\<rparr>"
  by (simp add: trained_def post_trained)

lemma trained_cached: "\<not> updatepost exact [Fin 0, Fin 0] (Ref 0) trained"
  by (simp add: trained_eq updatepost_def hyp_eq_all_def exact_def)

lemma trained_posterior:
  "posterior trained = (Some [[Fin 0]], Some [[Fin 1]], Some [Fin 2])"
  by (simp add: posterior_def trained_eq)

lemma ex_loglik_trained_run:
  "loglik exact [Fin 0, Fin 0] (Ref 0) [[Fin 0]] [Fin 2] trained
     = (Inr (Fin (2 + ln (2 * pi) / 2)), trained\<lparr>self_nlZ := Fin (2 + ln (2 * pi) / 2)\<rparr>)"
proof -
  have e: "nlZ_expr exact [Fin 2] trained
          = (Inr (nlZ_formula exact [Fin 2] [Fin 2] [[Fin 1]] 1), trained)"
    by (rule nlZ_expr_value) (simp_all add: trained_eq)
  have v: "nlZ_formula exact [Fin 2] [Fin 2] [[Fin 1]] 1 = Fin (2 + ln (2 * pi) / 2)"
    by (simp add: nlZ_formula_def arr_simps x_simps)
  show ?thesis
    using e v trained_cached
    by (simp add: loglik_def bindS_def modify_def)
       (simp add: exact_def trained_eq print_def)
qed

lemma ex_dloglik_after_loglik:
  "fst (dloglik exact [Fin 0, Fin 0] (Ref 0) [[Fin 0]] [Fin 2] (trained\<lparr>self_nlZ := z\<rparr>))
     = Inr [Fin (- 3), Fin 0]"
proof -
  have "\<not> updatepost exact [Fin 0, Fin 0] (Ref 0) (trained\<lparr>self_nlZ := z\<rparr>)"
    using trained_cached by (simp add: updatepost_def)
  then show ?thesis
    by (simp add: dloglik_def py_index_def Let_def)
       (simp add: trained_eq prog_simps arr_simps x_simps covfunc_dcov_def CovLin_dcov_def
          Q_times_dKT_def heap0_def print_def)
qed

lemma graded_eq: "graded = trained\<lparr>self_dnlZ := Some [Fin (- 3), Fin 0]\<rparr>"
proof -
  have "dloglik exact [Fin 0, Fin 0] (Ref 0) [[Fin 0]] [Fin 2] trained
          = (Inr [Fin (- 3), Fin 0], trained\<lparr>self_dnlZ := Some [Fin (- 3), Fin 0]\<rparr>)"
    using trained_cached
    by (simp add: dloglik_def py_index_def Let_def)
       (simp add: trained_eq prog_simps arr_simps x_simps covfunc_dcov_def CovLin_dcov_def
          Q_times_dKT_def heap0_def print_def)
  then show ?thesis
    by (simp add: graded_def)
qed

lemma graded_stale: "updatepost exact [NInf, Fin 0] (Ref 0) graded"
  by (simp add: graded_eq trained_eq updatepost_def hyp_eq_all_def exact_def)

lemma ex_post_singular_graded:
  "fst (post exact [NInf, Fin 0] (Ref 0) [[Fin 0]] [Fin 2] graded) = Inl LinAlgError"
proof -
  have c: "covfunc_cov exact (Ref 0) (Some (drop 1 [NInf, Fin 0])) [[Fin 0]] None
       (post_entry [[Fin 0]] graded) = (Inr [[Fin 0]], post_entry [[Fin 0]] graded)"
    by (simp add: graded_eq trained_eq run_simps arr_simps x_simps)
  have i: "py_index [NInf, Fin 0] 0 = Inr NInf"
    by (simp add: py_index_def)
  have l: "chol exact [[Fin 0]] = Inl LinAlgError"
    by (simp add: exact_def)
  show ?thesis
    using post_chol_raises [OF graded_stale i c ex_A0 l] by simp
qed

lemma ex_cov_trained:
  "covfunc_cov exact (Ref 0) (Some (drop 1 [Fin 0, Fin 0])) [[Fin 1], [Fin 2]] (Some [[Fin 0]])
     trained = (Inr [[Fin 0], [Fin 0]], trained)"
  "covfunc_cov exact (Ref 0) (Some (drop 1 [Fin 0, Fin 0])) [[Fin 1], [Fin 2]] None
     trained = (Inr [[Fin 1, Fin 2], [Fin 2, Fin 4]], trained)"
  by (simp_all add: trained_eq run_simps arr_simps x_simps)

lemma ex_predict_steps:
  "solve_m exact [[Fin 1]] (mT [[Fin 0], [Fin 0]]) = Inr [[Fin 0, Fin 0]]"
  "dot exact (mT [[Fin 0, Fin 0]]) [[Fin 0, Fin 0]] = Inr [[Fin 0, Fin 0], [Fin 0, Fin 0]]"
  "mbin (fsub exact) [[Fin 1, Fin 2], [Fin 2, Fin 4]] [[Fin 0, Fin 0], [Fin 0, Fin 0]]
     = Inr [[Fin 1, Fin 2], [Fin 2, Fin 4]]"
  by (simp_all add: arr_simps x_simps)

lemma ex_predict_trained:
  "predict exact [Fin 0, Fin 0] [[Fin 0]] [Fin 2] [[Fin 1], [Fin 2]] trained
     = (Inr ([Fin 0, Fin 0], [[Fin 2, Fin 3], [Fin 3, Fin 5]]), trained)"
proof -
  have c: "self_covfunc trained = Some (Ref 0)"
    and a: "self_alpha trained = Some [Fin 2]" and l: "self_L trained = Some [[Fin 1]]"
    by (simp_all add: trained_eq)
  have u: "(if updatepost exact [Fin 0, Fin 0] (Ref 0) trained
            then post exact [Fin 0, Fin 0] (Ref 0) [[Fin 0]] [Fin 2] trained
            else (Inr (), trained)) = (Inr (), trained)"
    using trained_cached by simp
  have i: "py_index [Fin 0, Fin 0 :: flt] 0 = Inr (Fin 0)"
    by (simp add: py_index_def)
  have n: "ncols [[Fin 0 :: flt], [Fin 0]] = length [Fin 2 :: flt]"
    by (simp add: ncols_def)
  show ?thesis
    using predict_run [OF c u i ex_cov_trained a l n ex_predict_steps]
    by (simp add: mmap_def x_simps)
qed

lemma ex_gram:
  "dot exact [[Fin 1], [Fin 2], [Fin 3]] (mT [[Fin 1], [Fin 2], [Fin 3]])
     = Inr [[Fin 1, Fin 2, Fin 3], [Fin 2, Fin 4, Fin 6], [Fin 3, Fin 6, Fin 9]]"
  by (simp add: arr_simps x_simps upt_rec)

text \<open>
  The engine passes \<^verbatim>\<open>hyp[1:]\<close> as \<open>theta\<close>: with the one-element \<open>hyp\<close> that
  \<^verbatim>\<open>CovLin\<close> calls for, the first \<^verbatim>\<open>loglik\<close> ends in IndexError.
\<close>

lemma ex_loglik_CovLin_IndexError:
  "fst (loglik exact [Fin 0] (Ref 0) [[Fin 1]] [Fin 1] fresh) = Inl IndexError"
  by (simp add: loglik_def fresh_stale post_def fresh_eq run_simps py_index_def bindS_def
        modify_def liftE_def)

lemma ex_sqexp_dist:
  "squared_dist exact
     (A2 (mmap (\<lambda>v. fdiv exact v (fexp exact ([Fin 0, Fin 0] ! 0))) [[Fin 0], [Fin 1]]))
     (A2 (mmap (\<lambda>v. fdiv exact v (fexp exact ([Fin 0, Fin 0] ! 0))) [[Fin 0], [Fin 1]]))
   = Inr [[Fin 0, Fin 1], [Fin 1, Fin 0]]"
  by (simp add: arr_simps x_simps)

lemma ex_ard_cov:
  "CovSqExpARD_cov exact 1 (Some [Fin 0, Fin 0]) [[Fin 1], [Fin 2]] None
     = Inr [[Fin 1, Fin (exp (- (1 / 2)))], [Fin (exp (- (1 / 2))), Fin 1]]"
  by (simp add: CovSqExpARD_cov_def ARD_ell_def theta_at_def sqexp_K_def Let_def
        arr_simps x_simps)

lemma lower_examples:
  "lower ''cg'' = ''cg''" "lower ''powell'' = ''powell''" "lower ''CG'' = ''cg''"
  "lower ''bfgs'' = ''bfgs''"
  by code_simp+

subsection \<open>The claims\<close>

text \<open>
  Claim C1, as amended. When \<^verbatim>\<open>loglik\<close> has to compute the posterior and the
  computation succeeds (the covariance function returns \<open>K\<close>, the Cholesky factorization
  of \<open>K + sn2 I\<close> returns \<open>L\<close>, the two solves return \<open>alpha\<close>), \<open>L\<close> and \<open>alpha\<close>
  are stored and \<^verbatim>\<open>loglik\<close> returns
  \<open>0.5 y\<^sup>T alpha + \<Sum> log (diag L) + 0.5 N log (2 \<pi>)\<close> when that value is finite,
  and \<^verbatim>\<open>1/eps\<close> when it is not. When the stored posterior is reused, the same holds
  with the stored \<open>L\<close>, \<open>alpha\<close> and \<open>N\<close>.
\<close>

theorem loglik_returns_nlZ:
  "(updatepost P hyp covfunc w \<and> py_index hyp 0 = Inr h0
      \<and> covfunc_cov P covfunc (Some (drop 1 hyp)) X None (post_entry X w) = (Inr K, w1)
      \<and> mbin (fadd P) K (mmap (fmul P (noise P h0)) (eye P (length X))) = Inr A
      \<and> chol P A = Inr L \<and> solve_v P L y = Inr t \<and> solve_v P (mT L) t = Inr alpha
      \<and> length alpha = length y
    \<longrightarrow> self_L (snd (post P hyp covfunc X y w)) = Some L
        \<and> self_alpha (snd (post P hyp covfunc X y w)) = Some alpha
        \<and> fst (loglik P hyp covfunc X y w) =
            Inr (if isfinite P (nlZ_formula P y alpha L (length X))
                 then nlZ_formula P y alpha L (length X) else sentinel P))
   \<and> (\<not> updatepost P hyp covfunc w
      \<and> self_alpha w = Some alpha \<and> self_L w = Some L \<and> self_N w = Some n
      \<and> length alpha = length y
    \<longrightarrow> fst (loglik P hyp covfunc X y w) =
            Inr (if isfinite P (nlZ_formula P y alpha L n)
                 then nlZ_formula P y alpha L n else sentinel P))"
  using loglik_computed [of P hyp covfunc w h0 X K w1 A L y t alpha]
    loglik_cached [of P hyp covfunc w alpha L n y X]
  by blast

text \<open>
  C1 at \<open>hyp = [0, 0]\<close>, \<^verbatim>\<open>CovLin\<close>, \<open>X = [[0]]\<close>, \<open>y = [1]\<close> on a new engine
  (\<open>K = [[0]]\<close>, \<open>L = [[1]]\<close>, \<open>alpha = [1]\<close>), and at \<open>y = [2]\<close> on \<open>trained\<close>,
  where the stored posterior is reused.
\<close>

theorem loglik_returns_nlZ_witness:
  "updatepost exact [Fin 0, Fin 0] (Ref 0) fresh
   \<and> chol exact [[Fin 1]] = Inr [[Fin 1]]
   \<and> solve_v exact [[Fin 1]] [Fin 1] = Inr [Fin 1]
   \<and> fst (loglik exact [Fin 0, Fin 0] (Ref 0) [[Fin 0]] [Fin 1] fresh)
       = Inr (Fin (1 / 2 + ln (2 * pi) / 2))
   \<and> \<not> updatepost exact [Fin 0, Fin 0] (Ref 0) trained
   \<and> self_alpha trained = Some [Fin 2] \<and> self_L trained = Some [[Fin 1]]
   \<and> fst (loglik exact [Fin 0, Fin 0] (Ref 0) [[Fin 0]] [Fin 2] trained)
       = Inr (Fin (2 + ln (2 * pi) / 2))"
proof -
  obtain w1 where c:
    "covfunc_cov exact (Ref 0) (Some (drop 1 [Fin 0, Fin 0])) [[Fin 0]] None
       (post_entry [[Fin 0]] fresh) = (Inr [[Fin 0]], w1)"
    using ex_cov_lin by auto
  have i: "py_index [Fin 0, Fin 0 :: flt] 0 = Inr (Fin 0)"
    by (simp add: py_index_def)
  have l: "chol exact [[Fin 1]] = Inr [[Fin 1]]"
    by (simp add: exact_def)
  have s: "solve_v exact [[Fin 1]] [Fin 1] = Inr [Fin 1]"
    by (simp add: exact_def)
  have s': "solve_v exact (mT [[Fin 1]]) [Fin 1] = Inr [Fin 1]"
    by (simp add: exact_def arr_simps)
  have v: "nlZ_formula exact [Fin 1] [Fin 1] [[Fin 1]] (length [[Fin 0 :: flt]])
             = Fin (1 / 2 + ln (2 * pi) / 2)"
    by (simp add: nlZ_formula_def arr_simps x_simps)
  have v': "nlZ_formula exact [Fin 2] [Fin 2] [[Fin 1]] 1 = Fin (2 + ln (2 * pi) / 2)"
    by (simp add: nlZ_formula_def arr_simps x_simps)
  have t: "self_alpha trained = Some [Fin 2]" "self_L trained = Some [[Fin 1]]"
    "self_N trained = Some 1"
    by (simp_all add: trained_eq)
  have f: "isfinite exact (Fin r)" for r
    by (simp add: exact_def)
  show ?thesis
    using loglik_returns_nlZ
            [of exact "[Fin 0, Fin 0]" "Ref 0" fresh "Fin 0" "[[Fin 0]]" "[[Fin 0]]" w1
                "[[Fin 1]]" "[[Fin 1]]" "[Fin 1]" "[Fin 1]" "[Fin 1]"]
      loglik_returns_nlZ
            [of exact "[Fin 0, Fin 0]" "Ref 0" trained _ "[[Fin 0]]" _ _ _ "[[Fin 1]]"
                "[Fin 2]" _ "[Fin 2]" 1]
      fresh_stale [of "[Fin 0, Fin 0]" "Ref 0"] i c ex_A1 l s s' v v' t trained_cached f
    by simp
qed

text \<open>
  C1 as stated fails where the value is not finite. With \<open>y = [inf]\<close> the posterior is
  computed (\<open>L = [[1]]\<close>, \<open>alpha = [inf]\<close>), the formula gives \<open>inf\<close>, and
  \<^verbatim>\<open>loglik\<close> returns \<open>1/eps = 2^52\<close>.
\<close>

theorem loglik_nonfinite_counterexample:
  "fst (post exact [Fin 0, Fin 0] (Ref 0) [[Fin 0]] [PInf] fresh) = Inr ()
   \<and> self_L (snd (post exact [Fin 0, Fin 0] (Ref 0) [[Fin 0]] [PInf] fresh)) = Some [[Fin 1]]
   \<and> self_alpha (snd (post exact [Fin 0, Fin 0] (Ref 0) [[Fin 0]] [PInf] fresh)) = Some [PInf]
   \<and> nlZ_formula exact [PInf] [PInf] [[Fin 1]] 1 = PInf
   \<and> fst (loglik exact [Fin 0, Fin 0] (Ref 0) [[Fin 0]] [PInf] fresh)
       = Inr (Fin 4503599627370496)"
proof -
  obtain w1 where c:
    "covfunc_cov exact (Ref 0) (Some (drop 1 [Fin 0, Fin 0])) [[Fin 0]] None
       (post_entry [[Fin 0]] fresh) = (Inr [[Fin 0]], w1)"
    using ex_cov_lin by auto
  have i: "py_index [Fin 0, Fin 0] 0 = Inr (Fin 0)"
    by (simp add: py_index_def)
  have l: "chol exact [[Fin 1]] = Inr [[Fin 1]]"
    by (simp add: exact_def)
  have s: "solve_v exact [[Fin 1]] [PInf] = Inr [PInf]"
    by (simp add: exact_def x_inf_def)
  have s': "solve_v exact (mT [[Fin 1]]) [PInf] = Inr [PInf]"
    by (simp add: exact_def arr_simps x_inf_def)
  have p: "post exact [Fin 0, Fin 0] (Ref 0) [[Fin 0]] [PInf] fresh =
             (Inr (), w1\<lparr>self_K := Some [[Fin 0]], self_L := Some [[Fin 1]],
                         self_alpha := Some [PInf], self_hyp := HVec [Fin 0, Fin 0],
                         self_covfunc := Some (Ref 0)\<rparr>)"
    by (rule post_computed [OF fresh_stale i c ex_A1 l s s'])
  have v: "nlZ_formula exact [PInf] [PInf] [[Fin 1]] 1 = PInf"
    by (simp add: nlZ_formula_def arr_simps x_simps)
  have n: "self_N w1 = Some 1"
    using covfunc_cov_attrs [OF c] by (simp add: post_entry_def Let_def print_def)
  have e: "nlZ_expr exact [PInf]
             (w1\<lparr>self_K := Some [[Fin 0]], self_L := Some [[Fin 1]],
                 self_alpha := Some [PInf], self_hyp := HVec [Fin 0, Fin 0],
                 self_covfunc := Some (Ref 0)\<rparr>)
           = (Inr PInf, w1\<lparr>self_K := Some [[Fin 0]], self_L := Some [[Fin 1]],
                 self_alpha := Some [PInf], self_hyp := HVec [Fin 0, Fin 0],
                 self_covfunc := Some (Ref 0)\<rparr>)"
    using nlZ_expr_value [of _ "[PInf]" "[[Fin 1]]" 1 "[PInf]" exact] n v by simp
  have "fst (loglik exact [Fin 0, Fin 0] (Ref 0) [[Fin 0]] [PInf] fresh)
          = Inr (sentinel exact)"
    using loglik_result [of exact "[Fin 0, Fin 0]" "Ref 0" fresh "[[Fin 0]]" "[PInf]", OF _ e]
      p fresh_stale by (simp add: exact_def)
  then show ?thesis
    using p v by (simp add: x_simps)
qed

text \<open>
  Claim C2. When the posterior computation inside \<^verbatim>\<open>loglik\<close> raises ValueError or
  LinAlgError (in particular when the Cholesky factorization of \<open>K + sn2 I\<close> raises
  LinAlgError), and when the computed value is not finite, \<^verbatim>\<open>loglik\<close> does not
  raise: it returns \<^verbatim>\<open>1/eps\<close> and stores it in \<^verbatim>\<open>nlZ\<close>.
\<close>

theorem loglik_sentinel_on_failure:
  "(updatepost P hyp covfunc w \<and> fst (post P hyp covfunc X y w) = Inl e
      \<and> (e = ValueError \<or> e = LinAlgError)
    \<longrightarrow> fst (loglik P hyp covfunc X y w) = Inr (sentinel P)
        \<and> self_nlZ (snd (loglik P hyp covfunc X y w)) = sentinel P)
   \<and> (updatepost P hyp covfunc w \<and> py_index hyp 0 = Inr h0
      \<and> covfunc_cov P covfunc (Some (drop 1 hyp)) X None (post_entry X w) = (Inr K, w1)
      \<and> mbin (fadd P) K (mmap (fmul P (noise P h0)) (eye P (length X))) = Inr A
      \<and> chol P A = Inl LinAlgError
    \<longrightarrow> fst (loglik P hyp covfunc X y w) = Inr (sentinel P)
        \<and> self_nlZ (snd (loglik P hyp covfunc X y w)) = sentinel P)
   \<and> ((if updatepost P hyp covfunc w then post P hyp covfunc X y w else (Inr (), w))
        = (Inr u, w2)
      \<and> nlZ_expr P y w2 = (Inr v, w2) \<and> \<not> isfinite P v
    \<longrightarrow> fst (loglik P hyp covfunc X y w) = Inr (sentinel P)
        \<and> self_nlZ (snd (loglik P hyp covfunc X y w)) = sentinel P)"
proof (intro conjI impI)
  assume a: "updatepost P hyp covfunc w \<and> fst (post P hyp covfunc X y w) = Inl e
      \<and> (e = ValueError \<or> e = LinAlgError)"
  then have "post P hyp covfunc X y w = (Inl e, snd (post P hyp covfunc X y w))"
    by (simp add: prod_eq_iff)
  with a have r: "loglik P hyp covfunc X y w =
      (Inr (sentinel P),
       (print ''Warning: Estimation of posterior distribution failed''
          (snd (post P hyp covfunc X y w)))\<lparr>self_nlZ := sentinel P\<rparr>)"
    by (intro loglik_caught) auto
  show "fst (loglik P hyp covfunc X y w) = Inr (sentinel P)"
    by (simp add: r)
  show "self_nlZ (snd (loglik P hyp covfunc X y w)) = sentinel P"
    by (simp add: r)
next
  assume b: "updatepost P hyp covfunc w \<and> py_index hyp 0 = Inr h0
      \<and> covfunc_cov P covfunc (Some (drop 1 hyp)) X None (post_entry X w) = (Inr K, w1)
      \<and> mbin (fadd P) K (mmap (fmul P (noise P h0)) (eye P (length X))) = Inr A
      \<and> chol P A = Inl LinAlgError"
  then have "post P hyp covfunc X y w = (Inl LinAlgError, w1\<lparr>self_K := Some K\<rparr>)"
    by (intro post_chol_raises) auto
  with b have r: "loglik P hyp covfunc X y w =
      (Inr (sentinel P),
       (print ''Warning: Estimation of posterior distribution failed''
          (w1\<lparr>self_K := Some K\<rparr>))\<lparr>self_nlZ := sentinel P\<rparr>)"
    by (intro loglik_caught) auto
  show "fst (loglik P hyp covfunc X y w) = Inr (sentinel P)"
    by (simp add: r)
  show "self_nlZ (snd (loglik P hyp covfunc X y w)) = sentinel P"
    by (simp add: r)
next
  assume c: "(if updatepost P hyp covfunc w then post P hyp covfunc X y w else (Inr (), w))
        = (Inr u, w2)
      \<and> nlZ_expr P y w2 = (Inr v, w2) \<and> \<not> isfinite P v"
  then have "fst (loglik P hyp covfunc X y w) = Inr (if isfinite P v then v else sentinel P)
         \<and> self_nlZ (snd (loglik P hyp covfunc X y w))
             = (if isfinite P v then v else sentinel P)"
    by (intro loglik_result) auto
  with c show "fst (loglik P hyp covfunc X y w) = Inr (sentinel P)"
    and "self_nlZ (snd (loglik P hyp covfunc X y w)) = sentinel P"
    by simp_all
qed

text \<open>
  C2 on a new engine with \<^verbatim>\<open>CovLin\<close>, \<open>X = [[0]]\<close> and zero noise
  (\<open>hyp = [-inf, 0]\<close>, so \<open>sn2 = exp(-inf) = 0\<close>): \<open>K + sn2 I = [[0]]\<close> is singular,
  its factorization raises LinAlgError, and \<^verbatim>\<open>loglik\<close> returns \<open>2^52\<close>.
\<close>

theorem loglik_sentinel_on_failure_witness:
  "updatepost exact [NInf, Fin 0] (Ref 0) fresh
   \<and> fst (post exact [NInf, Fin 0] (Ref 0) [[Fin 0]] [Fin 1] fresh) = Inl LinAlgError
   \<and> fst (loglik exact [NInf, Fin 0] (Ref 0) [[Fin 0]] [Fin 1] fresh)
       = Inr (Fin 4503599627370496)
   \<and> self_nlZ (snd (loglik exact [NInf, Fin 0] (Ref 0) [[Fin 0]] [Fin 1] fresh))
       = Fin 4503599627370496"
  using loglik_sentinel_on_failure
          [of exact "[NInf, Fin 0]" "Ref 0" fresh "[[Fin 0]]" "[Fin 1]" LinAlgError]
        fresh_stale [of "[NInf, Fin 0]" "Ref 0"] ex_post_singular [of "[Fin 1]"]
  by (simp add: sentinel_def exact_def)

text \<open>
  Claim C3. With a stored covariance function and a posterior that is fresh for
  \<open>hyp\<close> (stored already, or computed by the call), \<^verbatim>\<open>predict\<close> returns the mean
  \<open>Ks alpha\<close> and the whole matrix \<open>kss - V\<^sup>T V + sn2\<close>, where
  \<open>Ks = cov(theta, Xs, X)\<close>, \<open>kss = cov(theta, Xs)\<close> and \<open>V = L\<^sup>-\<^sup>1 Ks\<^sup>T\<close>; the
  diagonal of the matrix returned is \<open>diag(kss - V\<^sup>T V) + sn2\<close>.
\<close>

theorem predict_returns:
  assumes "self_covfunc w = Some cf"
    and "(if updatepost P hyp cf w then post P hyp cf X y w else (Inr (), w)) = (Inr u, w0)"
    and "py_index hyp 0 = Inr h0"
    and "covfunc_cov P cf (Some (drop 1 hyp)) Xs (Some X) w0 = (Inr Ks, w1)"
    and "covfunc_cov P cf (Some (drop 1 hyp)) Xs None w1 = (Inr kss, w2)"
    and "self_alpha w0 = Some alpha"
    and "self_L w0 = Some L"
    and "ncols Ks = length alpha"
    and "solve_m P L (mT Ks) = Inr V"
    and "dot P (mT V) V = Inr VtV"
    and "mbin (fsub P) kss VtV = Inr d"
  shows "predict P hyp X y Xs w =
           (Inr (map (\<lambda>r. fdot P r alpha) Ks, mmap (\<lambda>x. fadd P x (noise P h0)) d), w2)
       \<and> diag (mmap (\<lambda>x. fadd P x (noise P h0)) d)
           = map (\<lambda>x. fadd P x (noise P h0)) (diag d)"
  using predict_run [OF assms] diag_mmap [OF mbin_rows [OF assms(11)]] by simp

text \<open>
  C3 on the engine \<open>trained\<close> (\<open>hyp = [0, 0]\<close>, \<open>X = [[0]]\<close>, \<open>y = [2]\<close>) at the two
  test points \<open>Xs = [[1], [2]]\<close>: the mean is \<open>[0, 0]\<close> and the variance is the
  2 x 2 matrix \<open>[[2, 3], [3, 5]]\<close>.
\<close>

theorem predict_returns_witness:
  "self_covfunc trained = Some (Ref 0)
   \<and> \<not> updatepost exact [Fin 0, Fin 0] (Ref 0) trained
   \<and> self_alpha trained = Some [Fin 2] \<and> self_L trained = Some [[Fin 1]]
   \<and> predict exact [Fin 0, Fin 0] [[Fin 0]] [Fin 2] [[Fin 1], [Fin 2]] trained
       = (Inr ([Fin 0, Fin 0], [[Fin 2, Fin 3], [Fin 3, Fin 5]]), trained)
   \<and> diag [[Fin 2, Fin 3], [Fin 3, Fin 5 :: flt]] = [Fin 2, Fin 5]"
proof -
  have c: "self_covfunc trained = Some (Ref 0)"
    and a: "self_alpha trained = Some [Fin 2]" and l: "self_L trained = Some [[Fin 1]]"
    by (simp_all add: trained_eq)
  have u: "(if updatepost exact [Fin 0, Fin 0] (Ref 0) trained
            then post exact [Fin 0, Fin 0] (Ref 0) [[Fin 0]] [Fin 2] trained
            else (Inr (), trained)) = (Inr (), trained)"
    using trained_cached by simp
  have i: "py_index [Fin 0, Fin 0 :: flt] 0 = Inr (Fin 0)"
    by (simp add: py_index_def)
  have n: "ncols [[Fin 0 :: flt], [Fin 0]] = length [Fin 2 :: flt]"
    by (simp add: ncols_def)
  have g: "diag [[Fin 2, Fin 3], [Fin 3, Fin 5 :: flt]] = [Fin 2, Fin 5]"
    by (simp add: diag_def ncols_def upt_rec)
  show ?thesis
    using predict_returns [OF c u i ex_cov_trained a l n ex_predict_steps] c a l g
      trained_cached
    by (simp add: mmap_def x_simps)
qed

text \<open>
  Claim C4, on the code. \<^verbatim>\<open>_updatepost\<close> reports the cache valid exactly when
  \<^verbatim>\<open>(hyp == self.hyp).all()\<close> holds, \<^verbatim>\<open>alpha\<close> exists and the covariance function
  is the stored object; without \<^verbatim>\<open>alpha\<close> or with another covariance object it is
  never valid. For a passed \<open>hyp\<close> of the same length as the stored vector the comparison
  is element by element (under \<^verbatim>\<open>==\<close> of floats), as the claim says. It is made
  without a test of the lengths: a passed vector of one element is compared with every
  stored element, and every passed element with a stored vector of one element (or
  with the scalar of a new engine), so that vectors that differ are reported unchanged;
  for any other pair of different lengths the cache is invalid. When the cache is
  reported valid, \<^verbatim>\<open>post\<close> prints its notice and returns at once, and \<^verbatim>\<open>post\<close>,
  \<^verbatim>\<open>loglik\<close>, \<^verbatim>\<open>dloglik\<close> and \<^verbatim>\<open>predict\<close> leave the stored \<open>K\<close>, \<open>L\<close> and
  \<open>alpha\<close> as they are. When it is not, \<^verbatim>\<open>loglik\<close>, \<^verbatim>\<open>dloglik\<close> and
  \<^verbatim>\<open>predict\<close> call \<^verbatim>\<open>post\<close>, and a \<^verbatim>\<open>post\<close> that succeeds stores the \<open>K\<close>,
  \<open>L\<close> and \<open>alpha\<close> computed from its arguments.
\<close>

theorem posterior_cache_validity:
  "(self_hyp w = HVec v \<and> length v = length hyp \<longrightarrow>
      (\<not> updatepost P hyp cf w) =
        (list_all2 (feq P) hyp v \<and> self_alpha w \<noteq> None \<and> self_covfunc w = Some cf))
   \<and> (self_hyp w = HVec v \<and> hyp = [p] \<and> length v \<noteq> 1 \<longrightarrow>
        (\<not> updatepost P hyp cf w) =
          ((\<forall>b\<in>set v. feq P p b) \<and> self_alpha w \<noteq> None \<and> self_covfunc w = Some cf))
   \<and> (self_hyp w = HVec [q] \<and> length hyp \<noteq> 1 \<longrightarrow>
        (\<not> updatepost P hyp cf w) =
          ((\<forall>e\<in>set hyp. feq P e q) \<and> self_alpha w \<noteq> None \<and> self_covfunc w = Some cf))
   \<and> (self_hyp w = HVec v \<and> length hyp \<noteq> length v \<and> length hyp \<noteq> 1
        \<and> length v \<noteq> 1 \<longrightarrow> updatepost P hyp cf w)
   \<and> (self_hyp w = HScalar c \<longrightarrow>
        (\<not> updatepost P hyp cf w) =
          ((\<forall>e\<in>set hyp. feq P e c) \<and> self_alpha w \<noteq> None \<and> self_covfunc w = Some cf))
   \<and> (self_alpha w = None \<or> self_covfunc w \<noteq> Some cf \<longrightarrow> updatepost P hyp cf w)
   \<and> (\<not> updatepost P hyp cf w \<longrightarrow>
        post P hyp cf X y w =
          (Inr (), print ''hyperparameters have not changed, using exising posterior''
                     (w\<lparr>self_N := Some (length X), self_D := Some (ncols X)\<rparr>))
        \<and> posterior (snd (post P hyp cf X y w)) = posterior w
        \<and> posterior (snd (loglik P hyp cf X y w)) = posterior w
        \<and> posterior (snd (dloglik P hyp cf X y w)) = posterior w
        \<and> posterior (snd (predict P hyp X y Xs w)) = posterior w)
   \<and> (updatepost P hyp cf w \<longrightarrow>
        posterior (snd (loglik P hyp cf X y w)) = posterior (snd (post P hyp cf X y w))
        \<and> (hyp \<noteq> [] \<longrightarrow>
             posterior (snd (dloglik P hyp cf X y w)) = posterior (snd (post P hyp cf X y w)))
        \<and> (self_covfunc w = Some cf \<longrightarrow>
             posterior (snd (predict P hyp X y Xs w)) = posterior (snd (post P hyp cf X y w))))
   \<and> (updatepost P hyp cf w \<and> py_index hyp 0 = Inr h0
        \<and> covfunc_cov P cf (Some (drop 1 hyp)) X None (post_entry X w) = (Inr K, w1)
        \<and> mbin (fadd P) K (mmap (fmul P (noise P h0)) (eye P (length X))) = Inr A
        \<and> chol P A = Inr L \<and> solve_v P L y = Inr t \<and> solve_v P (mT L) t = Inr a
      \<longrightarrow> fst (post P hyp cf X y w) = Inr ()
        \<and> posterior (snd (post P hyp cf X y w)) = (Some K, Some L, Some a)
        \<and> self_hyp (snd (post P hyp cf X y w)) = HVec hyp
        \<and> self_covfunc (snd (post P hyp cf X y w)) = Some cf)"
proof (intro conjI impI)
  show "(\<not> updatepost P hyp cf w) =
        (list_all2 (feq P) hyp v \<and> self_alpha w \<noteq> None \<and> self_covfunc w = Some cf)"
    if "self_hyp w = HVec v \<and> length v = length hyp"
    using that updatepost_shapes(1) [of w v hyp P cf] by simp
next
  show "(\<not> updatepost P hyp cf w) =
          ((\<forall>b\<in>set v. feq P p b) \<and> self_alpha w \<noteq> None \<and> self_covfunc w = Some cf)"
    if "self_hyp w = HVec v \<and> hyp = [p] \<and> length v \<noteq> 1"
    using that updatepost_shapes(2) [of w v P p cf] by simp
next
  show "(\<not> updatepost P hyp cf w) =
          ((\<forall>e\<in>set hyp. feq P e q) \<and> self_alpha w \<noteq> None \<and> self_covfunc w = Some cf)"
    if "self_hyp w = HVec [q] \<and> length hyp \<noteq> 1"
    using that updatepost_shapes(3) [of w q hyp P cf] by simp
next
  show "updatepost P hyp cf w"
    if "self_hyp w = HVec v \<and> length hyp \<noteq> length v \<and> length hyp \<noteq> 1 \<and> length v \<noteq> 1"
    using that updatepost_shapes(4) [of w v hyp P cf] by simp
next
  show "(\<not> updatepost P hyp cf w) =
          ((\<forall>e\<in>set hyp. feq P e c) \<and> self_alpha w \<noteq> None \<and> self_covfunc w = Some cf)"
    if "self_hyp w = HScalar c"
    using that by (rule updatepost_shapes(5))
next
  show "updatepost P hyp cf w" if "self_alpha w = None \<or> self_covfunc w \<noteq> Some cf"
    using that by (rule updatepost_shapes(6))
next
  assume c: "\<not> updatepost P hyp cf w"
  show "post P hyp cf X y w =
          (Inr (), print ''hyperparameters have not changed, using exising posterior''
                     (w\<lparr>self_N := Some (length X), self_D := Some (ncols X)\<rparr>))"
    by (rule post_cached [OF c])
  show "posterior (snd (post P hyp cf X y w)) = posterior w"
    and "posterior (snd (loglik P hyp cf X y w)) = posterior w"
    and "posterior (snd (dloglik P hyp cf X y w)) = posterior w"
    and "posterior (snd (predict P hyp X y Xs w)) = posterior w"
    by (rule cached_posterior [OF c])+
next
  assume s: "updatepost P hyp cf w"
  show "posterior (snd (loglik P hyp cf X y w)) = posterior (snd (post P hyp cf X y w))"
    by (rule stale_posterior(1) [OF s])
  show "posterior (snd (dloglik P hyp cf X y w)) = posterior (snd (post P hyp cf X y w))"
    if "hyp \<noteq> []"
    using that by (rule stale_posterior(2) [OF s])
  show "posterior (snd (predict P hyp X y Xs w)) = posterior (snd (post P hyp cf X y w))"
    if "self_covfunc w = Some cf"
    using that by (rule stale_posterior(3) [OF s])
next
  assume h: "updatepost P hyp cf w \<and> py_index hyp 0 = Inr h0
        \<and> covfunc_cov P cf (Some (drop 1 hyp)) X None (post_entry X w) = (Inr K, w1)
        \<and> mbin (fadd P) K (mmap (fmul P (noise P h0)) (eye P (length X))) = Inr A
        \<and> chol P A = Inr L \<and> solve_v P L y = Inr t \<and> solve_v P (mT L) t = Inr a"
  then have p: "post P hyp cf X y w =
           (Inr (), w1\<lparr>self_K := Some K, self_L := Some L, self_alpha := Some a,
                       self_hyp := HVec hyp, self_covfunc := Some cf\<rparr>)"
    by (intro post_computed) auto
  show "fst (post P hyp cf X y w) = Inr ()"
    and "posterior (snd (post P hyp cf X y w)) = (Some K, Some L, Some a)"
    and "self_hyp (snd (post P hyp cf X y w)) = HVec hyp"
    and "self_covfunc (snd (post P hyp cf X y w)) = Some cf"
    by (simp_all add: p posterior_def)
qed

text \<open>
  C4 on the engine of the examples, whose stored vector is \<open>[0, 0]\<close>. The same \<open>hyp\<close>
  and covariance object are a cache hit, and \<open>K\<close>, \<open>L\<close>, \<open>alpha\<close> stay as they are
  through all four methods (here called with other data, \<open>X = [[5]]\<close>, \<open>y = [7]\<close>); a
  different \<open>hyp\<close> of two elements, one of three elements, or another covariance object
  is a miss; on the new engine \<^verbatim>\<open>post\<close> computes and stores the posterior. The
  one-element vector \<open>[0]\<close> differs from the stored one and is a hit all the same:
  \<^verbatim>\<open>post\<close> returns with the notice that the hyperparameters have not changed, and
  \<^verbatim>\<open>loglik\<close> keeps the posterior of \<open>[0, 0]\<close>.
\<close>

theorem posterior_cache_validity_witness:
  "self_hyp trained = HVec [Fin 0, Fin 0]
   \<and> list_all2 (feq exact) [Fin 0, Fin 0] [Fin 0, Fin 0]
   \<and> \<not> updatepost exact [Fin 0, Fin 0] (Ref 0) trained
   \<and> fst (post exact [Fin 0, Fin 0] (Ref 0) [[Fin 5]] [Fin 7] trained) = Inr ()
   \<and> posterior (snd (post exact [Fin 0, Fin 0] (Ref 0) [[Fin 5]] [Fin 7] trained))
       = (Some [[Fin 0]], Some [[Fin 1]], Some [Fin 2])
   \<and> posterior (snd (loglik exact [Fin 0, Fin 0] (Ref 0) [[Fin 5]] [Fin 7] trained))
       = (Some [[Fin 0]], Some [[Fin 1]], Some [Fin 2])
   \<and> posterior (snd (dloglik exact [Fin 0, Fin 0] (Ref 0) [[Fin 5]] [Fin 7] trained))
       = (Some [[Fin 0]], Some [[Fin 1]], Some [Fin 2])
   \<and> posterior (snd (predict exact [Fin 0, Fin 0] [[Fin 5]] [Fin 7] [[Fin 1]] trained))
       = (Some [[Fin 0]], Some [[Fin 1]], Some [Fin 2])
   \<and> updatepost exact [Fin 1, Fin 0] (Ref 0) trained
   \<and> updatepost exact [Fin 0, Fin 0] (Ref 1) trained
   \<and> updatepost exact [Fin 0, Fin 0, Fin 0] (Ref 0) trained
   \<and> updatepost exact [Fin 0, Fin 0] (Ref 0) fresh
   \<and> posterior (snd (post exact [Fin 0, Fin 0] (Ref 0) [[Fin 0]] [Fin 2] fresh))
       = (Some [[Fin 0]], Some [[Fin 1]], Some [Fin 2])
   \<and> \<not> list_all2 (feq exact) [Fin 0] [Fin 0, Fin 0]
   \<and> \<not> updatepost exact [Fin 0] (Ref 0) trained
   \<and> post exact [Fin 0] (Ref 0) [[Fin 0]] [Fin 2] trained
       = (Inr (), trained\<lparr>stdout :=
            [''CovLin: unnecessary hyperparameter specified. Ignoring...'',
             ''hyperparameters have not changed, using exising posterior'']\<rparr>)
   \<and> posterior (snd (loglik exact [Fin 0] (Ref 0) [[Fin 0]] [Fin 2] trained))
       = (Some [[Fin 0]], Some [[Fin 1]], Some [Fin 2])"
proof -
  have h: "self_hyp trained = HVec [Fin 0, Fin 0]"
    and a: "self_alpha trained \<noteq> None" and c: "self_covfunc trained = Some (Ref 0)"
    by (simp_all add: trained_eq)
  have e: "list_all2 (feq exact) [Fin 0, Fin 0] [Fin 0, Fin 0]"
    "\<forall>b\<in>set [Fin 0, Fin 0]. feq exact (Fin 0) b"
    by (simp_all add: exact_def)
  have m: "updatepost exact [Fin 1, Fin 0] (Ref 0) trained"
    "updatepost exact [Fin 0, Fin 0] (Ref 1) trained"
    by (simp_all add: trained_eq updatepost_def hyp_eq_all_def exact_def)
  have p: "posterior (snd (post exact [Fin 0, Fin 0] (Ref 0) [[Fin 0]] [Fin 2] fresh))
       = (Some [[Fin 0]], Some [[Fin 1]], Some [Fin 2])"
    by (simp add: post_trained posterior_def)
  have s: "print ''hyperparameters have not changed, using exising posterior''
             (trained\<lparr>self_N := Some (length [[Fin 0 :: flt]]),
                      self_D := Some (ncols [[Fin 0 :: flt]])\<rparr>)
           = trained\<lparr>stdout :=
            [''CovLin: unnecessary hyperparameter specified. Ignoring...'',
             ''hyperparameters have not changed, using exising posterior'']\<rparr>"
    by (simp add: trained_eq print_def ncols_def)
  have hit: "\<not> updatepost exact [Fin 0, Fin 0] (Ref 0) trained
   \<and> fst (post exact [Fin 0, Fin 0] (Ref 0) [[Fin 5]] [Fin 7] trained) = Inr ()
   \<and> posterior (snd (post exact [Fin 0, Fin 0] (Ref 0) [[Fin 5]] [Fin 7] trained))
       = (Some [[Fin 0]], Some [[Fin 1]], Some [Fin 2])
   \<and> posterior (snd (loglik exact [Fin 0, Fin 0] (Ref 0) [[Fin 5]] [Fin 7] trained))
       = (Some [[Fin 0]], Some [[Fin 1]], Some [Fin 2])
   \<and> posterior (snd (dloglik exact [Fin 0, Fin 0] (Ref 0) [[Fin 5]] [Fin 7] trained))
       = (Some [[Fin 0]], Some [[Fin 1]], Some [Fin 2])
   \<and> posterior (snd (predict exact [Fin 0, Fin 0] [[Fin 5]] [Fin 7] [[Fin 1]] trained))
       = (Some [[Fin 0]], Some [[Fin 1]], Some [Fin 2])"
    using posterior_cache_validity
            [of trained "[Fin 0, Fin 0]" "[Fin 0, Fin 0]" exact "Ref 0" _ _ _ "[[Fin 5]]" "[Fin 7]"
                "[[Fin 1]]"]
      h a c e trained_posterior
    by (simp add: posterior_def print_def)
  have slip: "\<not> updatepost exact [Fin 0] (Ref 0) trained
   \<and> post exact [Fin 0] (Ref 0) [[Fin 0]] [Fin 2] trained
       = (Inr (), trained\<lparr>stdout :=
            [''CovLin: unnecessary hyperparameter specified. Ignoring...'',
             ''hyperparameters have not changed, using exising posterior'']\<rparr>)
   \<and> posterior (snd (loglik exact [Fin 0] (Ref 0) [[Fin 0]] [Fin 2] trained))
       = (Some [[Fin 0]], Some [[Fin 1]], Some [Fin 2])"
    using posterior_cache_validity
            [of trained "[Fin 0, Fin 0]" "[Fin 0]" exact "Ref 0" "Fin 0" _ _ "[[Fin 0]]" "[Fin 2]"]
      h a c e s trained_posterior
    by (simp add: posterior_def)
  have far: "updatepost exact [Fin 0, Fin 0, Fin 0] (Ref 0) trained"
    using posterior_cache_validity
            [of trained "[Fin 0, Fin 0]" "[Fin 0, Fin 0, Fin 0]" exact "Ref 0"]
      h
    by simp
  have new: "updatepost exact [Fin 0, Fin 0] (Ref 0) fresh"
    using posterior_cache_validity [of fresh _ "[Fin 0, Fin 0]" exact "Ref 0"]
    by (simp add: fresh_eq)
  show ?thesis
    using h e(1) m p hit slip far new by (simp add: exact_def)
qed

text \<open>
  Claim C5. When \<^verbatim>\<open>post\<close> is called and the Cholesky factorization of
  \<open>K + sn2 I\<close> raises an error, \<^verbatim>\<open>post\<close> raises that same error: nothing is caught,
  no sentinel is stored in \<^verbatim>\<open>nlZ\<close>, and the stored factor, solve vector,
  hyperparameters and covariance function are the ones from before the call.
\<close>

theorem post_propagates_decomposition_error:
  assumes "updatepost P hyp covfunc w"
    and "py_index hyp 0 = Inr h0"
    and "covfunc_cov P covfunc (Some (drop 1 hyp)) X None (post_entry X w) = (Inr K, w1)"
    and "mbin (fadd P) K (mmap (fmul P (noise P h0)) (eye P (length X))) = Inr A"
    and "chol P A = Inl e"
  shows "fst (post P hyp covfunc X y w) = Inl e
       \<and> self_nlZ (snd (post P hyp covfunc X y w)) = self_nlZ w
       \<and> self_L (snd (post P hyp covfunc X y w)) = self_L w
       \<and> self_alpha (snd (post P hyp covfunc X y w)) = self_alpha w
       \<and> self_hyp (snd (post P hyp covfunc X y w)) = self_hyp w
       \<and> self_covfunc (snd (post P hyp covfunc X y w)) = self_covfunc w"
proof -
  have "post P hyp covfunc X y w = (Inl e, w1\<lparr>self_K := Some K\<rparr>)"
    using assms by (rule post_chol_raises)
  then show ?thesis
    using post_keeps_cache [OF assms(3), of "Some K"] by simp
qed

text \<open>
  C5 on a new engine with \<^verbatim>\<open>CovLin\<close>, \<open>X = [[0]]\<close> and \<open>hyp = [-inf, 0]\<close>: the
  matrix \<open>[[0]]\<close> is not positive definite and \<^verbatim>\<open>post\<close> raises LinAlgError.
\<close>

theorem post_propagates_decomposition_error_witness:
  "updatepost exact [NInf, Fin 0] (Ref 0) fresh
   \<and> py_index [NInf, Fin 0 :: flt] 0 = Inr NInf
   \<and> chol exact [[Fin 0]] = Inl LinAlgError
   \<and> fst (post exact [NInf, Fin 0] (Ref 0) [[Fin 0]] [Fin 1] fresh) = Inl LinAlgError
   \<and> self_nlZ (snd (post exact [NInf, Fin 0] (Ref 0) [[Fin 0]] [Fin 1] fresh)) = NaN
   \<and> self_alpha (snd (post exact [NInf, Fin 0] (Ref 0) [[Fin 0]] [Fin 1] fresh)) = None"
proof -
  obtain w1 where c:
    "covfunc_cov exact (Ref 0) (Some (drop 1 [NInf, Fin 0])) [[Fin 0]] None
       (post_entry [[Fin 0]] fresh) = (Inr [[Fin 0]], w1)"
    using ex_cov_lin by auto
  have i: "py_index [NInf, Fin 0 :: flt] 0 = Inr NInf"
    by (simp add: py_index_def)
  have l: "chol exact [[Fin 0]] = Inl LinAlgError"
    by (simp add: exact_def)
  show ?thesis
    using post_propagates_decomposition_error [OF fresh_stale i c ex_A0 l, of "[Fin 1]"]
      fresh_stale i l
    by (simp add: fresh_eq)
qed

text \<open>
  Claim C6, on the code. When the posterior computation inside \<^verbatim>\<open>dloglik\<close> raises
  ValueError or LinAlgError, the handler reads \<^verbatim>\<open>self.dnlZ\<close>: if a gradient was
  stored by an earlier call, \<^verbatim>\<open>dloglik\<close> returns \<^verbatim>\<open>sign(dnlZ)/eps\<close>; if none
  was (the attribute is created only by a \<^verbatim>\<open>dloglik\<close> call that got past the
  posterior), the handler itself raises AttributeError.
\<close>

theorem dloglik_on_failure:
  assumes "py_index hyp 0 = Inr h0"
    and "updatepost P hyp covfunc w"
    and "fst (post P hyp covfunc X y w) = Inl e"
    and "e = ValueError \<or> e = LinAlgError"
  shows "(\<forall>g. self_dnlZ w = Some g \<longrightarrow>
            fst (dloglik P hyp covfunc X y w) = Inr (sign_over_eps P g))
       \<and> (self_dnlZ w = None \<longrightarrow>
            fst (dloglik P hyp covfunc X y w) = Inl AttributeError)"
  using dloglik_caught [OF assms] by simp

text \<open>
  C6 twice with \<^verbatim>\<open>CovLin\<close>, \<open>X = [[0]]\<close> and \<open>hyp = [-inf, 0]\<close>, where the
  factorization of \<open>[[0]]\<close> fails. As the first \<^verbatim>\<open>dloglik\<close> call on a new engine it
  ends in AttributeError. On \<open>graded\<close>, where the gradient \<open>[-3, 0]\<close> is stored, it
  returns \<open>[-2^52, 0]\<close>.
\<close>

theorem dloglik_on_failure_witness:
  "py_index [NInf, Fin 0 :: flt] 0 = Inr NInf
   \<and> updatepost exact [NInf, Fin 0] (Ref 0) fresh
   \<and> fst (post exact [NInf, Fin 0] (Ref 0) [[Fin 0]] [Fin 1] fresh) = Inl LinAlgError
   \<and> self_dnlZ fresh = None
   \<and> fst (dloglik exact [NInf, Fin 0] (Ref 0) [[Fin 0]] [Fin 1] fresh) = Inl AttributeError
   \<and> updatepost exact [NInf, Fin 0] (Ref 0) graded
   \<and> fst (post exact [NInf, Fin 0] (Ref 0) [[Fin 0]] [Fin 2] graded) = Inl LinAlgError
   \<and> self_dnlZ graded = Some [Fin (- 3), Fin 0]
   \<and> fst (dloglik exact [NInf, Fin 0] (Ref 0) [[Fin 0]] [Fin 2] graded)
       = Inr [Fin (- 4503599627370496), Fin 0]"
proof -
  have i: "py_index [NInf, Fin 0 :: flt] 0 = Inr NInf"
    by (simp add: py_index_def)
  have d: "self_dnlZ fresh = None"
    by (simp add: fresh_eq)
  have g: "self_dnlZ graded = Some [Fin (- 3), Fin 0]"
    by (simp add: graded_eq)
  have e: "sign_over_eps exact [Fin (- 3), Fin 0] = [Fin (- 4503599627370496), Fin 0]"
    by (simp add: sign_over_eps_def exact_def)
  show ?thesis
    using dloglik_on_failure [OF i fresh_stale ex_post_singular, of "[Fin 1]"]
      dloglik_on_failure [OF i graded_stale ex_post_singular_graded]
      i d g e graded_stale
      fresh_stale [of "[NInf, Fin 0]" "Ref 0"] ex_post_singular [of "[Fin 1]"]
      ex_post_singular_graded
    by simp
qed

text \<open>
  Claim C7, as amended. \<^verbatim>\<open>CovLin.dcov\<close> raises ValueError for every index except
  0, where it returns zero; in particular \<^verbatim>\<open>dcov(None, X, 1)\<close> raises.
  \<^verbatim>\<open>CovSqExp.dcov\<close> fails for every index outside [0, 2), with ValueError when
  \<open>theta\<close> has its two entries and the distances are computed.
  \<^verbatim>\<open>CovSqExpARD.dcov\<close> fails for every index above \<open>D\<close>, with ValueError when the
  covariance itself is computed.
\<close>

theorem dcov_invalid_index:
  "(i \<noteq> 0 \<longrightarrow> CovLin_dcov P theta x i = Inl ValueError)
   \<and> CovLin_dcov P theta x 0 = Inr (A0 (fofint P 0))
   \<and> CovLin_dcov P None x 1 = Inl ValueError
   \<and> (i < 0 \<or> 2 \<le> i \<longrightarrow> (\<exists>e. CovSqExp_dcov P theta x i = Inl e))
   \<and> ((i < 0 \<or> 2 \<le> i) \<and> theta = Some th \<and> 2 \<le> length th
        \<and> squared_dist P (A2 (mmap (\<lambda>v. fdiv P v (fexp P (th ! 0))) x))
                           (A2 (mmap (\<lambda>v. fdiv P v (fexp P (th ! 0))) x)) = Inr R
      \<longrightarrow> CovSqExp_dcov P theta x i = Inl ValueError)
   \<and> (int d < i \<longrightarrow> (\<exists>e. CovSqExpARD_dcov P d theta x i = Inl e))
   \<and> (int d < i \<and> CovSqExpARD_cov P d theta x None = Inr K
      \<longrightarrow> CovSqExpARD_dcov P d theta x i = Inl ValueError)"
proof (intro conjI impI)
  show "CovLin_dcov P theta x i = Inl ValueError" if "i \<noteq> 0"
    using that by (simp add: CovLin_dcov_def)
  show "CovLin_dcov P theta x 0 = Inr (A0 (fofint P 0))"
    by (simp add: CovLin_dcov_def)
  show "CovLin_dcov P None x 1 = Inl ValueError"
    by (simp add: CovLin_dcov_def)
  show "\<exists>e. CovSqExp_dcov P theta x i = Inl e" if "i < 0 \<or> 2 \<le> i"
    using that by (rule CovSqExp_dcov_fails)
  show "CovSqExp_dcov P theta x i = Inl ValueError"
    if h: "(i < 0 \<or> 2 \<le> i) \<and> theta = Some th \<and> 2 \<le> length th
        \<and> squared_dist P (A2 (mmap (\<lambda>v. fdiv P v (fexp P (th ! 0))) x))
                           (A2 (mmap (\<lambda>v. fdiv P v (fexp P (th ! 0))) x)) = Inr R"
  proof -
    have "theta_at theta 0 = Inr (th ! 0)" and "theta_at theta 1 = Inr (th ! 1)"
      using h by (auto simp: theta_at_def py_index_def)
    with h show ?thesis
      by (auto simp: CovSqExp_dcov_def Let_def)
  qed
  show "\<exists>e. CovSqExpARD_dcov P d theta x i = Inl e" if "int d < i"
    using that by (rule CovSqExpARD_dcov_fails)
  show "CovSqExpARD_dcov P d theta x i = Inl ValueError"
    if "int d < i \<and> CovSqExpARD_cov P d theta x None = Inr K"
    using that by (simp add: CovSqExpARD_dcov_def)
qed

text \<open>
  C7 at index 2 for the two squared exponentials (two parameters each: \<open>theta = [0, 0]\<close>,
  one input column) and at index 1 for \<^verbatim>\<open>CovLin\<close>.
\<close>

theorem dcov_invalid_index_witness:
  "CovLin_dcov exact None [[Fin 1], [Fin 2], [Fin 3]] 1 = Inl ValueError
   \<and> CovSqExp_dcov exact (Some [Fin 0, Fin 0]) [[Fin 0], [Fin 1]] 2 = Inl ValueError
   \<and> CovSqExpARD_cov exact 1 (Some [Fin 0, Fin 0]) [[Fin 1], [Fin 2]] None
       = Inr [[Fin 1, Fin (exp (- (1 / 2)))], [Fin (exp (- (1 / 2))), Fin 1]]
   \<and> CovSqExpARD_dcov exact 1 (Some [Fin 0, Fin 0]) [[Fin 1], [Fin 2]] 2 = Inl ValueError"
  using dcov_invalid_index
          [of 2 exact "Some [Fin 0, Fin 0]" "[[Fin 0], [Fin 1]]" "[Fin 0, Fin 0]"
              "[[Fin 0, Fin 1], [Fin 1, Fin 0]]" 1]
        dcov_invalid_index
          [of 2 exact "Some [Fin 0, Fin 0]" "[[Fin 1], [Fin 2]]" "[Fin 0, Fin 0]" _ 1
              "[[Fin 1, Fin (exp (- (1 / 2)))], [Fin (exp (- (1 / 2))), Fin 1]]"]
        dcov_invalid_index [of 1 exact None "[[Fin 1], [Fin 2], [Fin 3]]"]
        ex_sqexp_dist ex_ard_cov
  by simp

text \<open>
  C7 as stated fails for \<^verbatim>\<open>CovLin\<close>, which has no parameter: index 0 is outside
  [0, 0) and \<^verbatim>\<open>dcov\<close> returns zero. (\<^verbatim>\<open>CovSqExpARD.dcov\<close> also accepts the index
  -1, which selects the last length scale.)
\<close>

theorem dcov_invalid_index_counterexample:
  "get_n_params (CovLin False) = 0
   \<and> CovLin_dcov exact None [[Fin 1], [Fin 2], [Fin 3]] 0 = Inr (A0 (Fin 0))
   \<and> (\<exists>M. CovSqExpARD_dcov exact 1 (Some [Fin 0, Fin 0]) [[Fin 1], [Fin 2]] (- 1)
            = Inr (A2 M))"
proof -
  have "\<exists>M. CovSqExpARD_dcov exact 1 (Some [Fin 0, Fin 0]) [[Fin 1], [Fin 2]] (- 1)
            = Inr (A2 M)"
    unfolding CovSqExpARD_dcov_def ex_ard_cov
    by (simp add: ARD_ell_def ARD_scaled_column_def arr_simps x_simps)
  then show ?thesis
    by (simp add: get_n_params_def CovLin_dcov_def exact_def)
qed

text \<open>
  Claim C8, on the code. \<^verbatim>\<open>CovLin.cov\<close> returns \<open>X Z\<^sup>T\<close> (\<open>Z\<close> defaulting to
  \<open>X\<close>, ValueError only when the column counts differ): unchanged state when \<open>theta\<close>
  is \<open>None\<close> or the notice has been printed before, and with the notice printed and
  the flag set when \<open>theta\<close> has a first element. On an object that has not printed
  the notice, an empty \<open>theta\<close> raises IndexError.
\<close>

theorem CovLin_cov_cases:
  "(first_call (heap w r) \<or> theta = None \<longrightarrow>
      CovLin_cov P r theta x z w = (dot P x (mT (case z of None \<Rightarrow> x | Some z0 \<Rightarrow> z0)), w))
   \<and> (\<not> first_call (heap w r) \<and> theta = Some (t # ts) \<longrightarrow>
      CovLin_cov P r theta x z w =
        (dot P x (mT (case z of None \<Rightarrow> x | Some z0 \<Rightarrow> z0)),
         (print ''CovLin: unnecessary hyperparameter specified. Ignoring...'' w)
           \<lparr>heap := (heap w)(r := CovLin True)\<rparr>))
   \<and> (\<not> first_call (heap w r) \<and> theta = Some [] \<longrightarrow>
      CovLin_cov P r theta x z w = (Inl IndexError, w))
   \<and> (\<exists>K. dot P x (mT x) = Inr K)
   \<and> (ncols x = ncols z' \<longrightarrow> (\<exists>K. dot P x (mT z') = Inr K))"
proof (intro conjI impI)
  assume "first_call (heap w r) \<or> theta = None"
  then show "CovLin_cov P r theta x z w =
      (dot P x (mT (case z of None \<Rightarrow> x | Some z0 \<Rightarrow> z0)), w)"
    by (auto simp: CovLin_cov_def Let_def)
next
  assume "\<not> first_call (heap w r) \<and> theta = Some (t # ts)"
  moreover have "py_index (t # ts) 0 = Inr t"
    by (simp add: py_index_def)
  ultimately show "CovLin_cov P r theta x z w =
        (dot P x (mT (case z of None \<Rightarrow> x | Some z0 \<Rightarrow> z0)),
         (print ''CovLin: unnecessary hyperparameter specified. Ignoring...'' w)
           \<lparr>heap := (heap w)(r := CovLin True)\<rparr>)"
    by (simp add: CovLin_cov_def Let_def)
next
  assume "\<not> first_call (heap w r) \<and> theta = Some []"
  moreover have "py_index ([] :: 'a list) 0 = Inl IndexError"
    by (simp add: py_index_def)
  ultimately show "CovLin_cov P r theta x z w = (Inl IndexError, w)"
    by (simp add: CovLin_cov_def Let_def)
next
  show "\<exists>K. dot P x (mT x) = Inr K"
    by (simp add: dot_mT)
  show "\<exists>K. dot P x (mT z') = Inr K" if "ncols x = ncols z'"
    using that by (simp add: dot_mT)
qed

text \<open>
  C8 on a new \<^verbatim>\<open>CovLin\<close> object and \<open>X = [[1], [2], [3]]\<close>: \<^verbatim>\<open>cov(None, X)\<close> is
  \<open>X X\<^sup>T\<close>; with the parameter vector \<open>[7]\<close> it is \<open>X X\<^sup>T\<close> too, the notice is
  printed and the flag set; with the empty parameter vector \<^verbatim>\<open>cov\<close> raises
  IndexError.
\<close>

theorem CovLin_cov_cases_witness:
  "\<not> first_call (heap fresh 0)
   \<and> CovLin_cov exact 0 None [[Fin 1], [Fin 2], [Fin 3]] None fresh
       = (Inr [[Fin 1, Fin 2, Fin 3], [Fin 2, Fin 4, Fin 6], [Fin 3, Fin 6, Fin 9]], fresh)
   \<and> CovLin_cov exact 0 (Some [Fin 7]) [[Fin 1], [Fin 2], [Fin 3]] None fresh
       = (Inr [[Fin 1, Fin 2, Fin 3], [Fin 2, Fin 4, Fin 6], [Fin 3, Fin 6, Fin 9]],
          fresh\<lparr>heap := heap0(0 := CovLin True),
                stdout := [''CovLin: unnecessary hyperparameter specified. Ignoring...'']\<rparr>)
   \<and> CovLin_cov exact 0 (Some []) [[Fin 1], [Fin 2], [Fin 3]] None fresh
       = (Inl IndexError, fresh)"
proof -
  have f: "\<not> first_call (heap fresh 0)"
    by (simp add: fresh_eq heap0_def)
  have p: "(print ''CovLin: unnecessary hyperparameter specified. Ignoring...'' fresh)
             \<lparr>heap := (heap fresh)(0 := CovLin True)\<rparr>
           = fresh\<lparr>heap := heap0(0 := CovLin True),
                stdout := [''CovLin: unnecessary hyperparameter specified. Ignoring...'']\<rparr>"
    by (simp add: fresh_eq print_def)
  show ?thesis
    using f ex_gram p
      CovLin_cov_cases [of fresh 0 None exact "[[Fin 1], [Fin 2], [Fin 3]]" None]
      CovLin_cov_cases [of fresh 0 "Some [Fin 7]" exact "[[Fin 1], [Fin 2], [Fin 3]]" None
                           "Fin 7" "[]"]
      CovLin_cov_cases [of fresh 0 "Some []" exact "[[Fin 1], [Fin 2], [Fin 3]]" None]
    by simp
qed

text \<open>
  Claim C9, as amended. The optimizer name is compared after lower-casing. When it
  lower-cases to \<open>cg\<close> (to \<open>powell\<close>), \<^verbatim>\<open>estimate\<close> runs \<^verbatim>\<open>fmin_cg\<close> on
  \<^verbatim>\<open>loglik\<close> and \<^verbatim>\<open>dloglik\<close> with the stored tolerance and iteration bound
  (\<^verbatim>\<open>fmin_powell\<close> on \<^verbatim>\<open>loglik\<close>), stores the optimizer's point in \<^verbatim>\<open>hyp\<close> and
  its value in \<^verbatim>\<open>nlZ\<close>, and returns the point. For every other name it raises
  ValueError at once, leaving the state as it was.
\<close>

theorem estimate_dispatch:
  "(lower optimizer = ''cg''
      \<and> fmin_cg S (\<lambda>h. loglik P h covfunc X y) hyp0 (\<lambda>h. dloglik P h covfunc X y)
           (self_tol w) (self_n_iter w) w = (Inr (x, v), w1)
    \<longrightarrow> estimate S P hyp0 covfunc X y optimizer w =
          (Inr x, w1\<lparr>self_hyp := HVec x, self_nlZ := v, self_optimizer := Some optimizer\<rparr>))
   \<and> (lower optimizer = ''powell''
      \<and> fmin_powell S (\<lambda>h. loglik P h covfunc X y) hyp0 w = (Inr (x, v), w1)
    \<longrightarrow> estimate S P hyp0 covfunc X y optimizer w =
          (Inr x, w1\<lparr>self_hyp := HVec x, self_nlZ := v, self_optimizer := Some optimizer\<rparr>))
   \<and> (lower optimizer \<noteq> ''cg'' \<and> lower optimizer \<noteq> ''powell''
    \<longrightarrow> estimate S P hyp0 covfunc X y optimizer w = (Inl ValueError, w))"
proof (intro conjI impI)
  assume "lower optimizer = ''cg''
      \<and> fmin_cg S (\<lambda>h. loglik P h covfunc X y) hyp0 (\<lambda>h. dloglik P h covfunc X y)
           (self_tol w) (self_n_iter w) w = (Inr (x, v), w1)"
  then show "estimate S P hyp0 covfunc X y optimizer w =
          (Inr x, w1\<lparr>self_hyp := HVec x, self_nlZ := v, self_optimizer := Some optimizer\<rparr>)"
    by (simp add: estimate_def bindS_def modify_def ret_def)
next
  assume "lower optimizer = ''powell''
      \<and> fmin_powell S (\<lambda>h. loglik P h covfunc X y) hyp0 w = (Inr (x, v), w1)"
  then show "estimate S P hyp0 covfunc X y optimizer w =
          (Inr x, w1\<lparr>self_hyp := HVec x, self_nlZ := v, self_optimizer := Some optimizer\<rparr>)"
    by (simp add: estimate_def bindS_def modify_def ret_def)
next
  assume "lower optimizer \<noteq> ''cg'' \<and> lower optimizer \<noteq> ''powell''"
  then show "estimate S P hyp0 covfunc X y optimizer w = (Inl ValueError, w)"
    by (simp add: estimate_def bindS_def liftE_def)
qed

text \<open>
  C9 with the optimizer of the examples on the engine \<open>trained\<close>: \<open>powell\<close> returns the
  starting point and stores its objective value; \<open>bfgs\<close> raises ValueError.
\<close>

theorem estimate_dispatch_witness:
  "lower ''powell'' = ''powell''
   \<and> fst (estimate opt0 exact [Fin 0, Fin 0] (Ref 0) [[Fin 0]] [Fin 2] ''powell'' trained)
       = Inr [Fin 0, Fin 0]
   \<and> self_nlZ (snd (estimate opt0 exact [Fin 0, Fin 0] (Ref 0) [[Fin 0]] [Fin 2]
                      ''powell'' trained)) = Fin (2 + ln (2 * pi) / 2)
   \<and> lower ''bfgs'' \<noteq> ''cg'' \<and> lower ''bfgs'' \<noteq> ''powell''
   \<and> estimate opt0 exact [Fin 0, Fin 0] (Ref 0) [[Fin 0]] [Fin 2] ''bfgs'' trained
       = (Inl ValueError, trained)"
proof -
  have p: "fmin_powell opt0 (\<lambda>h. loglik exact h (Ref 0) [[Fin 0]] [Fin 2]) [Fin 0, Fin 0] trained
        = (Inr ([Fin 0, Fin 0], Fin (2 + ln (2 * pi) / 2)),
           trained\<lparr>self_nlZ := Fin (2 + ln (2 * pi) / 2)\<rparr>)"
    by (simp add: opt0_def bindS_def ret_def ex_loglik_trained_run)
  have b: "lower ''bfgs'' \<noteq> ''cg'' \<and> lower ''bfgs'' \<noteq> ''powell''"
    by (simp add: lower_examples)
  show ?thesis
    using estimate_dispatch [of "''powell''" opt0 exact "Ref 0" "[[Fin 0]]" "[Fin 2]"
            "[Fin 0, Fin 0]" trained "[Fin 0, Fin 0]" "Fin (2 + ln (2 * pi) / 2)"
            "trained\<lparr>self_nlZ := Fin (2 + ln (2 * pi) / 2)\<rparr>"]
      estimate_dispatch [of "''bfgs''" opt0 exact "Ref 0" "[[Fin 0]]" "[Fin 2]"
            "[Fin 0, Fin 0]" trained]
      p b
    by (simp add: lower_examples)
qed

text \<open>
  C9 as stated fails for a name that differs from \<open>cg\<close> only in case: \<open>CG\<close> is not
  rejected, \<^verbatim>\<open>estimate\<close> runs the conjugate-gradient optimizer and returns its point.
\<close>

theorem estimate_dispatch_counterexample:
  "''CG'' \<noteq> ''cg'' \<and> ''CG'' \<noteq> ''powell''
   \<and> fst (estimate opt0 exact [Fin 0, Fin 0] (Ref 0) [[Fin 0]] [Fin 2] ''CG'' trained)
       = Inr [Fin 0, Fin 0]"
proof -
  obtain w2 where d:
    "dloglik exact [Fin 0, Fin 0] (Ref 0) [[Fin 0]] [Fin 2]
       (trained\<lparr>self_nlZ := Fin (2 + ln (2 * pi) / 2)\<rparr>) = (Inr [Fin (- 3), Fin 0], w2)"
    using ex_dloglik_after_loglik [of "Fin (2 + ln (2 * pi) / 2)"]
    by (cases "dloglik exact [Fin 0, Fin 0] (Ref 0) [[Fin 0]] [Fin 2]
       (trained\<lparr>self_nlZ := Fin (2 + ln (2 * pi) / 2)\<rparr>)") auto
  have "fmin_cg opt0 (\<lambda>h. loglik exact h (Ref 0) [[Fin 0]] [Fin 2]) [Fin 0, Fin 0]
          (\<lambda>h. dloglik exact h (Ref 0) [[Fin 0]] [Fin 2]) (self_tol trained)
          (self_n_iter trained) trained
        = (Inr ([Fin 0, Fin 0], Fin (2 + ln (2 * pi) / 2)), w2)"
    by (simp add: opt0_def bindS_def ret_def ex_loglik_trained_run d)
  then show ?thesis
    by (simp add: estimate_def lower_examples bindS_def modify_def ret_def)
qed

text \<open>
  Claim C10. \<^verbatim>\<open>predict\<close> reads the stored covariance function. On an engine that has
  none (as \<^verbatim>\<open>GPR()\<close> leaves it) the call raises AttributeError and returns no
  prediction. A successful \<^verbatim>\<open>post\<close>, called directly or by the constructor, stores
  its covariance function, after which that read succeeds; and once a covariance
  function is stored, it is still stored after any call of \<^verbatim>\<open>post\<close>, \<^verbatim>\<open>loglik\<close>,
  \<^verbatim>\<open>dloglik\<close> or \<^verbatim>\<open>predict\<close>.
\<close>

theorem predict_needs_stored_covfunc:
  "(self_covfunc w = None \<longrightarrow> predict P hyp X y Xs w = (Inl AttributeError, w))
   \<and> self_covfunc (snd (GPR_init P None cf0 None None n_iter tol verbose h out)) = None
   \<and> (post P hyp0 cf X0 y0 w = (Inr (), w1)
      \<longrightarrow> self_covfunc w1 = Some cf \<and> attr self_covfunc w1 = (Inr cf, w1))
   \<and> (GPR_init P (Some hyp0) cf (Some X0) (Some y0) n_iter tol verbose h out = (Inr (), w1)
      \<longrightarrow> self_covfunc w1 = Some cf \<and> attr self_covfunc w1 = (Inr cf, w1))
   \<and> (self_covfunc w \<noteq> None
      \<longrightarrow> self_covfunc (snd (post P hyp cf X y w)) \<noteq> None
        \<and> self_covfunc (snd (loglik P hyp cf X y w)) \<noteq> None
        \<and> self_covfunc (snd (dloglik P hyp cf X y w)) \<noteq> None
        \<and> self_covfunc (snd (predict P hyp X y Xs w)) \<noteq> None)"
proof (intro conjI impI)
  show "predict P hyp X y Xs w = (Inl AttributeError, w)" if "self_covfunc w = None"
    using that by (rule predict_no_covfunc)
  show "self_covfunc (snd (GPR_init P None cf0 None None n_iter tol verbose h out)) = None"
    by (simp add: GPR_init_def)
  show "self_covfunc w1 = Some cf" if "post P hyp0 cf X0 y0 w = (Inr (), w1)"
    using that by (rule post_success_covfunc)
  then show "attr self_covfunc w1 = (Inr cf, w1)" if "post P hyp0 cf X0 y0 w = (Inr (), w1)"
    using that by (simp add: attr_def)
  show c: "self_covfunc w1 = Some cf"
    if "GPR_init P (Some hyp0) cf (Some X0) (Some y0) n_iter tol verbose h out = (Inr (), w1)"
    using that by (simp add: GPR_init_def post_success_covfunc)
  show "attr self_covfunc w1 = (Inr cf, w1)"
    if "GPR_init P (Some hyp0) cf (Some X0) (Some y0) n_iter tol verbose h out = (Inr (), w1)"
    using c [OF that] by (simp add: attr_def)
next
  assume s: "self_covfunc w \<noteq> None"
  show "self_covfunc (snd (post P hyp cf X y w)) \<noteq> None"
    by (rule post_covfunc_stays [OF s])
  show "self_covfunc (snd (loglik P hyp cf X y w)) \<noteq> None"
    and "self_covfunc (snd (dloglik P hyp cf X y w)) \<noteq> None"
    and "self_covfunc (snd (predict P hyp X y Xs w)) \<noteq> None"
    by (rule covfunc_stays [OF s])+
qed

text \<open>
  C10 on the engine of the examples: \<^verbatim>\<open>predict\<close> on the new engine raises
  AttributeError; after \<^verbatim>\<open>post\<close> the covariance function is stored and \<^verbatim>\<open>predict\<close>
  returns a prediction.
\<close>

theorem predict_needs_stored_covfunc_witness:
  "self_covfunc fresh = None
   \<and> predict exact [Fin 0, Fin 0] [[Fin 0]] [Fin 2] [[Fin 1], [Fin 2]] fresh
       = (Inl AttributeError, fresh)
   \<and> post exact [Fin 0, Fin 0] (Ref 0) [[Fin 0]] [Fin 2] fresh = (Inr (), trained)
   \<and> self_covfunc trained = Some (Ref 0)
   \<and> predict exact [Fin 0, Fin 0] [[Fin 0]] [Fin 2] [[Fin 1], [Fin 2]] trained
       = (Inr ([Fin 0, Fin 0], [[Fin 2, Fin 3], [Fin 3, Fin 5]]), trained)
   \<and> self_covfunc (snd (loglik exact [NInf, Fin 0] (Ref 0) [[Fin 0]] [Fin 2] trained))
       \<noteq> None"
proof -
  have f: "self_covfunc fresh = None"
    by (simp add: fresh_eq)
  have p: "post exact [Fin 0, Fin 0] (Ref 0) [[Fin 0]] [Fin 2] fresh = (Inr (), trained)"
    by (simp add: post_trained trained_eq)
  have t: "self_covfunc trained = Some (Ref 0)"
    by (simp add: trained_eq)
  show ?thesis
    using predict_needs_stored_covfunc
            [of fresh exact "[Fin 0, Fin 0]" "[[Fin 0]]" "[Fin 2]" "[[Fin 1], [Fin 2]]"
                _ _ _ _ _ _ "[Fin 0, Fin 0]" "Ref 0" "[[Fin 0]]" "[Fin 2]" trained]
      predict_needs_stored_covfunc
            [of trained exact "[NInf, Fin 0]" "[[Fin 0]]" "[Fin 2]" "[[Fin 1]]"
                _ _ _ _ _ _ _ "Ref 0"]
      f p t ex_predict_trained
    by simp
qed

end
